theory Spec2Isabelle
  imports Complex_Main
begin

section \<open>The ABG analyzer (src/utils/abgCalculator.js, class ABGAnalyzer)\<close>

text \<open>
  Numbers: a finite JavaScript number is modelled by the real it denotes and every
  arithmetic operation by the exact operation on reals (no rounding, no overflow to
  Infinity). NaN, \<open>null\<close> and \<open>undefined\<close> are values of their own, since the code
  tests for them. A MeasurementSet is an object whose properties are such values; a
  property that is absent reads as \<open>undefined\<close>.
\<close>

datatype jsval = JUndefined | JNull | JNaN | JNum real

type_synonym measurement_set = "string \<Rightarrow> jsval option"

definition get :: "measurement_set \<Rightarrow> string \<Rightarrow> jsval" where
  "get values key = (case values key of None \<Rightarrow> JUndefined | Some v \<Rightarrow> v)"

text \<open>ToNumber of the language; \<open>None\<close> is NaN.\<close>

fun to_num :: "jsval \<Rightarrow> real option" where
  "to_num JUndefined = None"
| "to_num JNull = Some 0"
| "to_num JNaN = None"
| "to_num (JNum x) = Some x"

definition isNaN :: "jsval \<Rightarrow> bool" where
  "isNaN v = (to_num v = None)"

text \<open>\<open>parseFloat\<close> reads the string form of its argument: \<open>"null"\<close> and \<open>"undefined"\<close> do not parse.\<close>

fun parseFloat :: "jsval \<Rightarrow> real option" where
  "parseFloat (JNum x) = Some x"
| "parseFloat _ = None"

text \<open>Comparisons of numbers that may be NaN: false as soon as one side is NaN.\<close>

definition nlt :: "real option \<Rightarrow> real option \<Rightarrow> bool" where
  "nlt a b = (case (a, b) of (Some x, Some y) \<Rightarrow> x < y | _ \<Rightarrow> False)"

definition ngt :: "real option \<Rightarrow> real option \<Rightarrow> bool" where
  "ngt a b = (case (a, b) of (Some x, Some y) \<Rightarrow> x > y | _ \<Rightarrow> False)"

definition nge :: "real option \<Rightarrow> real option \<Rightarrow> bool" where
  "nge a b = (case (a, b) of (Some x, Some y) \<Rightarrow> x \<ge> y | _ \<Rightarrow> False)"

text \<open>\<open>x <= b\<close> for a state field \<open>x\<close> that is a number or \<open>null\<close>; \<open>null\<close> compares as 0.\<close>

definition null_le :: "real option \<Rightarrow> real \<Rightarrow> bool" where
  "null_le a b = (case a of None \<Rightarrow> 0 \<le> b | Some x \<Rightarrow> x \<le> b)"

subsection \<open>Texts\<close>

text \<open>
  A text is the sequence of the parts of a template literal: literal ASCII characters,
  a character outside ASCII by its code point, a number converted by the template
  (\<open>${x}\<close>), and a number formatted by \<open>x.toFixed(d)\<close>. The empty string is \<open>[]\<close>.
\<close>

datatype piece = Lit string | U nat | Str real | Fixed real nat

type_synonym message = "piece list"

definition sub2 :: piece where "sub2 = U 0x2082"
definition sub3 :: piece where "sub3 = U 0x2083"
definition sup_minus :: piece where "sup_minus = U 0x207B"
definition sup_plus :: piece where "sup_plus = U 0x207A"
definition approx :: piece where "approx = U 0x2248"
definition plus_minus :: piece where "plus_minus = U 0xB1"
definition Delta :: piece where "Delta = U 0x394"

definition PaCO2 :: message where "PaCO2 = [Lit ''PaCO'', sub2]"
definition HCO3 :: message where "HCO3 = [Lit ''HCO'', sub3, sup_minus]"
definition Hplus :: message where "Hplus = [Lit ''[H'', sup_plus, Lit '']'']"

fun nonempty_piece :: "piece \<Rightarrow> bool" where
  "nonempty_piece (Lit s) = (s \<noteq> [])"
| "nonempty_piece _ = True"

definition truthy_text :: "message option \<Rightarrow> bool" where
  "truthy_text t = (case t of None \<Rightarrow> False | Some ps \<Rightarrow> list_ex nonempty_piece ps)"

subsection \<open>String operations of the language used by the analyzer\<close>

definition upper_char :: "char \<Rightarrow> char" where
  "upper_char c = (let n = (of_char c :: nat) in if 97 \<le> n \<and> n \<le> 122 then char_of (n - 32) else c)"

definition toUpperCase :: "string \<Rightarrow> string" where
  "toUpperCase s = map upper_char s"

fun starts_with :: "string \<Rightarrow> string \<Rightarrow> bool" where
  "starts_with s [] = True"
| "starts_with [] (p # ps) = False"
| "starts_with (c # cs) (p # ps) = (c = p \<and> starts_with cs ps)"

fun includes_str :: "string \<Rightarrow> string \<Rightarrow> bool" where
  "includes_str [] p = (p = [])"
| "includes_str (c # cs) p = (starts_with (c # cs) p \<or> includes_str cs p)"

text \<open>\<open>s.replace(/_/g, ' ')\<close>\<close>

definition underscores_to_spaces :: "string \<Rightarrow> string" where
  "underscores_to_spaces s = map (\<lambda>c. if c = CHR ''_'' then CHR '' '' else c) s"

text \<open>\<open>s.replace(p, '')\<close> with a string pattern: only the first occurrence is removed.\<close>

fun remove_first :: "string \<Rightarrow> string \<Rightarrow> string" where
  "remove_first p [] = []"
| "remove_first p (c # cs) =
     (if starts_with (c # cs) p then drop (length p) (c # cs) else c # remove_first p cs)"

definition is_space :: "char \<Rightarrow> bool" where
  "is_space c = ((of_char c :: nat) \<in> {9, 10, 11, 12, 13, 32})"

definition trim :: "string \<Rightarrow> string" where
  "trim s = rev (dropWhile is_space (rev (dropWhile is_space s)))"

fun join :: "string \<Rightarrow> string list \<Rightarrow> string" where
  "join sep [] = []"
| "join sep [x] = x"
| "join sep (x # y # ys) = x @ sep @ join sep (y # ys)"

text \<open>\<open>[...new Set(xs)]\<close>: the elements in the order of their first occurrence.\<close>

definition set_spread :: "string list \<Rightarrow> string list" where
  "set_spread xs = fold (\<lambda>x acc. if x \<in> set acc then acc else acc @ [x]) xs []"

subsection \<open>The analyzer object\<close>

record analysis_results =
  step1 :: message
  step2 :: message
  step3 :: message
  step4 :: message
  step5 :: message
  step6 :: message
  finalInterpretation :: message
  error :: "message option"

record analysis_state =
  acidBaseStatus :: "string option"
  primaryDisorder :: "string option"
  compensationType :: "string option"
  expectedCompensationValue :: "real option"
  compensationAssessment :: "string option"
  additionalDisorders :: "string list"
  anionGap :: "real option"
  correctedAnionGap :: "real option"
  deltaRatio :: "real option"
  deltaRatioAssessment :: "string option"

text \<open>
  The object of class ABGAnalyzer holds \<open>this.results\<close> and \<open>this.state\<close>; the value
  that \<open>analyze\<close> returns, \<open>{ ...this.results, state: this.state }\<close>, has the same
  content.
\<close>

record analyzer =
  results :: analysis_results
  state :: analysis_state

definition empty_results :: analysis_results where
  "empty_results = \<lparr> step1 = [], step2 = [], step3 = [], step4 = [], step5 = [], step6 = [],
     finalInterpretation = [], error = None \<rparr>"

definition empty_state :: analysis_state where
  "empty_state = \<lparr> acidBaseStatus = None, primaryDisorder = None, compensationType = None,
     expectedCompensationValue = None, compensationAssessment = None, additionalDisorders = [],
     anionGap = None, correctedAnionGap = None, deltaRatio = None, deltaRatioAssessment = None \<rparr>"

definition resetStateAndResults :: "analyzer \<Rightarrow> analyzer" where
  "resetStateAndResults this = \<lparr> results = empty_results, state = empty_state \<rparr>"

subsection \<open>Input validation\<close>

text \<open>
  The texts that a function produces are defined before it, one definition for each
  template literal of the source, with the interpolated values as arguments.
\<close>

definition msg_missing :: "string \<Rightarrow> message" where
  "msg_missing key = [Lit ''Missing or invalid required value: '', Lit (toUpperCase key)]"

definition msg_ph_range :: "real \<Rightarrow> message" where
  "msg_ph_range v = [Lit ''pH value ('', Str v, Lit '') is outside typical physiological range (6.8-8.0).'']"

definition msg_paco2_range :: "real \<Rightarrow> message" where
  "msg_paco2_range v = [Lit ''PaCO'', sub2, Lit '' value ('', Str v,
     Lit '') is outside typical physiological range (10-150 mmHg).'']"

definition msg_hco3_range :: "real \<Rightarrow> message" where
  "msg_hco3_range v = [Lit ''HCO'', sub3, sup_minus, Lit '' value ('', Str v,
     Lit '') is outside typical physiological range (5-60 mmol/L).'']"

definition required :: "string list" where
  "required = [''ph'', ''paco2'', ''hco3'']"

text \<open>The loop over the required keys, up to its first \<open>return false\<close>.\<close>

fun first_invalid :: "measurement_set \<Rightarrow> string list \<Rightarrow> string option" where
  "first_invalid values [] = None"
| "first_invalid values (key # keys) =
     (if get values key = JUndefined \<or> get values key = JNull \<or> isNaN (get values key)
      then Some key else first_invalid values keys)"

definition validateInputs :: "measurement_set \<Rightarrow> analysis_results \<Rightarrow> bool \<times> analysis_results" where
  "validateInputs values r =
     (case first_invalid values required of
        Some key \<Rightarrow> (False, r\<lparr>error := Some (msg_missing key)\<rparr>)
      | None \<Rightarrow>
          (let ph = to_num (get values ''ph'');
               paco2 = to_num (get values ''paco2'');
               hco3 = to_num (get values ''hco3'')
           in if nlt ph (Some 6.0) \<or> ngt ph (Some 8.0) then
                (False, r\<lparr>error := Some (msg_ph_range (the ph))\<rparr>)
              else if nlt paco2 (Some 10) \<or> ngt paco2 (Some 150) then
                (False, r\<lparr>error := Some (msg_paco2_range (the paco2))\<rparr>)
              else if nlt hco3 (Some 2) \<or> ngt hco3 (Some 60) then
                (False, r\<lparr>error := Some (msg_hco3_range (the hco3))\<rparr>)
              else (True, r)))"

subsection \<open>Step 1: internal consistency\<close>

definition msg_hco3_zero :: message where
  "msg_hco3_zero = [Lit ''Inconsistency: HCO'', sub3, sup_minus, Lit '' cannot be zero.'']"

definition msg_inconsistent :: "real \<Rightarrow> real \<Rightarrow> message" where
  "msg_inconsistent measuredH calculatedH =
     [Lit ''Possible inconsistency detected. Measured ''] @ Hplus @ [Lit '' '', approx, Lit '' '',
       Fixed measuredH 1, Lit '' nmol/L, Calculated ''] @ Hplus @ [Lit '' '', approx, Lit '' '',
       Fixed calculatedH 1, Lit '' nmol/L.'']"

definition msg_consistent :: "real \<Rightarrow> real \<Rightarrow> message" where
  "msg_consistent measuredH calculatedH =
     [Lit ''Values appear internally consistent. Measured ''] @ Hplus @ [Lit '' '', approx, Lit '' '',
       Fixed measuredH 1, Lit '' nmol/L, Calculated ''] @ Hplus @ [Lit '' '', approx, Lit '' '',
       Fixed calculatedH 1, Lit '' nmol/L.'']"

text \<open>
  \<open>Math.pow(10, -ph)\<close> is the real power. The test \<open>!isNaN(difference)\<close> of the source
  is true of every real and is left out.
\<close>

definition checkInternalConsistency :: "real \<Rightarrow> real \<Rightarrow> real \<Rightarrow> message" where
  "checkInternalConsistency ph paco2 hco3 =
     (if hco3 = 0 then msg_hco3_zero
      else
        let calculatedH = 24 * (paco2 / hco3);
            measuredH = (10 powr (- ph)) * 1000000000;
            difference = \<bar>calculatedH - measuredH\<bar>;
            acceptableDifference = measuredH * 0.20
        in if difference > acceptableDifference then msg_inconsistent measuredH calculatedH
           else msg_consistent measuredH calculatedH)"

subsection \<open>Step 2: acidemia or alkalemia\<close>

definition msg_acidemia :: "real \<Rightarrow> message" where
  "msg_acidemia ph = [Lit ''Acidemia (pH '', Fixed ph 2, Lit '' < 7.35)'']"

definition msg_alkalemia :: "real \<Rightarrow> message" where
  "msg_alkalemia ph = [Lit ''Alkalemia (pH '', Fixed ph 2, Lit '' > 7.45)'']"

definition msg_normal_ph :: "real \<Rightarrow> message" where
  "msg_normal_ph ph = [Lit ''Normal pH ('', Fixed ph 2, Lit '')'']"

definition determineAcidemiaAlkalemia :: "real \<Rightarrow> analysis_state \<Rightarrow> message \<times> analysis_state" where
  "determineAcidemiaAlkalemia ph s =
     (if ph < 7.35 then (msg_acidemia ph, s\<lparr>acidBaseStatus := Some ''acidemia''\<rparr>)
      else if ph > 7.45 then (msg_alkalemia ph, s\<lparr>acidBaseStatus := Some ''alkalemia''\<rparr>)
      else (msg_normal_ph ph, s\<lparr>acidBaseStatus := Some ''normal''\<rparr>))"

subsection \<open>Step 3: primary disorder\<close>

definition msg_primary_resp_acidosis :: "real \<Rightarrow> message" where
  "msg_primary_resp_acidosis paco2 =
     [Lit ''Primary Respiratory Acidosis (PaCO'', sub2, Lit '' '', Str paco2, Lit '' mmHg is high)'']"

definition msg_primary_met_acidosis :: "real \<Rightarrow> message" where
  "msg_primary_met_acidosis hco3 =
     [Lit ''Primary Metabolic Acidosis (HCO'', sub3, sup_minus, Lit '' '', Str hco3, Lit '' mmol/L is low)'']"

definition msg_mixed_acidemia :: "real \<Rightarrow> real \<Rightarrow> message" where
  "msg_mixed_acidemia paco2 hco3 =
     [Lit ''Acidemia present, but PaCO'', sub2, Lit '' ('', Str paco2, Lit '') and HCO'', sub3, sup_minus,
      Lit '' ('', Str hco3, Lit '') do not clearly indicate a single primary disorder. Mixed disorder likely.'']"

definition msg_primary_resp_alkalosis :: "real \<Rightarrow> message" where
  "msg_primary_resp_alkalosis paco2 =
     [Lit ''Primary Respiratory Alkalosis (PaCO'', sub2, Lit '' '', Str paco2, Lit '' mmHg is low)'']"

definition msg_primary_met_alkalosis :: "real \<Rightarrow> message" where
  "msg_primary_met_alkalosis hco3 =
     [Lit ''Primary Metabolic Alkalosis (HCO'', sub3, sup_minus, Lit '' '', Str hco3, Lit '' mmol/L is high)'']"

definition msg_mixed_alkalemia :: "real \<Rightarrow> real \<Rightarrow> message" where
  "msg_mixed_alkalemia paco2 hco3 =
     [Lit ''Alkalemia present, but PaCO'', sub2, Lit '' ('', Str paco2, Lit '') and HCO'', sub3, sup_minus,
      Lit '' ('', Str hco3, Lit '') do not clearly indicate a single primary disorder. Mixed disorder likely.'']"

definition msg_mixed_high :: message where
  "msg_mixed_high =
     [Lit ''Normal pH with high PaCO'', sub2, Lit '' and high HCO'', sub3, sup_minus,
      Lit '' suggests Mixed Disorder (Compensated Respiratory Acidosis + Metabolic Alkalosis).'']"

definition msg_mixed_low :: message where
  "msg_mixed_low =
     [Lit ''Normal pH with low PaCO'', sub2, Lit '' and low HCO'', sub3, sup_minus,
      Lit '' suggests Mixed Disorder (Compensated Respiratory Alkalosis + Metabolic Acidosis).'']"

definition msg_normal_ranges :: message where
  "msg_normal_ranges =
     [Lit ''Normal acid-base status (pH, PaCO'', sub2, Lit '', HCO'', sub3, sup_minus,
      Lit '' within normal ranges).'']"

definition msg_compensated :: message where
  "msg_compensated =
     [Lit ''Normal pH with abnormal PaCO'', sub2, Lit '' or HCO'', sub3, sup_minus,
      Lit '' suggests a fully compensated disorder or borderline values.'']"

definition msg_normal_status :: message where
  "msg_normal_status = [Lit ''Normal acid-base status.'']"

definition identifyPrimaryDisorder :: "real \<Rightarrow> real \<Rightarrow> real \<Rightarrow> analysis_state \<Rightarrow> message \<times> analysis_state" where
  "identifyPrimaryDisorder ph paco2 hco3 s =
     (let status = acidBaseStatus s in
      if status = Some ''acidemia'' then
        (if paco2 > 45 then
           (msg_primary_resp_acidosis paco2, s\<lparr>primaryDisorder := Some ''respiratory acidosis''\<rparr>)
         else if hco3 < 22 then
           (msg_primary_met_acidosis hco3, s\<lparr>primaryDisorder := Some ''metabolic acidosis''\<rparr>)
         else
           (msg_mixed_acidemia paco2 hco3, s\<lparr>primaryDisorder := Some ''mixed acidemia''\<rparr>))
      else if status = Some ''alkalemia'' then
        (if paco2 < 35 then
           (msg_primary_resp_alkalosis paco2, s\<lparr>primaryDisorder := Some ''respiratory alkalosis''\<rparr>)
         else if hco3 > 26 then
           (msg_primary_met_alkalosis hco3, s\<lparr>primaryDisorder := Some ''metabolic alkalosis''\<rparr>)
         else
           (msg_mixed_alkalemia paco2 hco3, s\<lparr>primaryDisorder := Some ''mixed alkalemia''\<rparr>))
      else
        (if paco2 > 45 \<and> hco3 > 26 then
           (msg_mixed_high, s\<lparr>primaryDisorder := Some ''mixed compensated resp acid + met alk''\<rparr>)
         else if paco2 < 35 \<and> hco3 < 22 then
           (msg_mixed_low, s\<lparr>primaryDisorder := Some ''mixed compensated resp alk + met acid''\<rparr>)
         else if paco2 \<ge> 35 \<and> paco2 \<le> 45 \<and> hco3 \<ge> 22 \<and> hco3 \<le> 26 then
           (msg_normal_ranges, s\<lparr>primaryDisorder := Some ''normal''\<rparr>)
         else
           (if paco2 > 45 \<or> hco3 > 26 then
              (msg_compensated, s\<lparr>primaryDisorder := Some ''compensated''\<rparr>)
            else if paco2 < 35 \<or> hco3 < 22 then
              (msg_compensated, s\<lparr>primaryDisorder := Some ''compensated''\<rparr>)
            else
              (msg_normal_status, s\<lparr>primaryDisorder := Some ''normal''\<rparr>))))"

subsection \<open>Step 4: compensation\<close>

definition msg_full_compensation :: message where
  "msg_full_compensation = [Lit ''Full compensation (pH is within normal range).'']"

definition msg_compensation_skipped :: message where
  "msg_compensation_skipped = [Lit ''Compensation assessment skipped (Mixed, Normal, or Undetermined Primary).'']"

definition msg_unknown_primary :: message where
  "msg_unknown_primary = [Lit ''Error: Unknown primary disorder for compensation check.'']"

definition msg_winters :: "message \<Rightarrow> real \<Rightarrow> real \<Rightarrow> real \<Rightarrow> message" where
  "msg_winters valueName expected rng measuredValue =
     [Lit ''Expected ''] @ valueName @ [Lit '' '', approx, Lit '' '', Fixed expected 1,
       Lit '' '', plus_minus, Lit '' '', Str rng, Lit '' mmHg (Winter's). Measured ''] @ valueName @
       [Lit '' = '', Fixed measuredValue 1, Lit '' mmHg.'']"

definition msg_expected_mmHg :: "message \<Rightarrow> real \<Rightarrow> real \<Rightarrow> real \<Rightarrow> message" where
  "msg_expected_mmHg valueName expected rng measuredValue =
     [Lit ''Expected ''] @ valueName @ [Lit '' '', approx, Lit '' '', Fixed expected 1,
       Lit '' '', plus_minus, Lit '' '', Str rng, Lit '' mmHg. Measured ''] @ valueName @
       [Lit '' = '', Fixed measuredValue 1, Lit '' mmHg.'']"

definition msg_acute :: "message \<Rightarrow> real \<Rightarrow> real \<Rightarrow> real \<Rightarrow> message" where
  "msg_acute valueName expected rng measuredValue =
     [Lit ''Acute Compensation: Expected ''] @ valueName @ [Lit '' '', approx, Lit '' '', Fixed expected 1,
       Lit '' '', plus_minus, Lit '' '', Str rng, Lit '' mmol/L. Measured ''] @ valueName @
       [Lit '' = '', Fixed measuredValue 1, Lit '' mmol/L.'']"

definition msg_chronic :: "message \<Rightarrow> real \<Rightarrow> real \<Rightarrow> real \<Rightarrow> message" where
  "msg_chronic valueName expected rng measuredValue =
     [Lit ''Chronic Compensation: Expected ''] @ valueName @ [Lit '' '', approx, Lit '' '', Fixed expected 1,
       Lit '' '', plus_minus, Lit '' '', Str rng, Lit '' mmol/L. Measured ''] @ valueName @
       [Lit '' = '', Fixed measuredValue 1, Lit '' mmol/L.'']"

text \<open>
  Every case of the switch ends with the same three-way test of the measured value
  against the expected one; \<open>lowLabel\<close> and \<open>highLabel\<close> are the labels that the case
  pushes when the measured value is under and over the band.
\<close>

definition assess :: "real \<Rightarrow> real \<Rightarrow> real \<Rightarrow> string \<Rightarrow> string \<Rightarrow> analysis_state \<Rightarrow> analysis_state" where
  "assess measuredValue expected rng lowLabel highLabel s =
     (if \<bar>measuredValue - expected\<bar> \<le> rng then
        s\<lparr>compensationAssessment := Some ''appropriate''\<rparr>
      else if measuredValue < expected - rng then
        s\<lparr>compensationAssessment := Some ''mixed'',
          additionalDisorders := additionalDisorders s @ [lowLabel]\<rparr>
      else
        s\<lparr>compensationAssessment := Some ''mixed'',
          additionalDisorders := additionalDisorders s @ [highLabel]\<rparr>)"

text \<open>The sentence appended after the switch.\<close>

definition assessment_text :: "analysis_state \<Rightarrow> message" where
  "assessment_text s =
     (if compensationAssessment s = Some ''appropriate'' then [Lit '' Compensation is appropriate.'']
      else if compensationAssessment s = Some ''mixed'' then
        (let superimposed = (if length (additionalDisorders s) > 0 then last (additionalDisorders s)
                             else ''unknown'')
         in [Lit '' Suggests a superimposed '', Lit (underscores_to_spaces superimposed), Lit ''.''])
      else [Lit '' Compensation assessment unclear.''])"

definition evaluateCompensation :: "real \<Rightarrow> real \<Rightarrow> analysis_state \<Rightarrow> message \<times> analysis_state" where
  "evaluateCompensation paco2 hco3 s =
     (case primaryDisorder s of
        None \<Rightarrow> (msg_compensation_skipped, s)
      | Some primary \<Rightarrow>
          if primary = [] \<or> includes_str primary ''mixed'' \<or> primary = ''normal'' \<or> primary = ''compensated'' then
            (if primary = ''compensated'' then (msg_full_compensation, s)
             else (msg_compensation_skipped, s))
          else
            let deltaPaco2 = paco2 - 40;
                deltaHco3 = hco3 - 24
            in
            if primary = ''metabolic acidosis'' then
              (let rng = 2;
                   expected = (1.5 * hco3) + 8;
                   s1 = s\<lparr>expectedCompensationValue := Some expected\<rparr>;
                   measuredValue = paco2;
                   resultText = msg_winters PaCO2 expected rng measuredValue;
                   s2 = assess measuredValue expected rng ''respiratory alkalosis'' ''respiratory acidosis'' s1
               in (resultText @ assessment_text s2, s2))
            else if primary = ''metabolic alkalosis'' then
              (let rng = 5;
                   expected = 40 + (0.6 * deltaHco3);
                   s1 = s\<lparr>expectedCompensationValue := Some expected\<rparr>;
                   measuredValue = paco2;
                   resultText = msg_expected_mmHg PaCO2 expected rng measuredValue;
                   s2 = assess measuredValue expected rng ''respiratory alkalosis'' ''respiratory acidosis'' s1
               in (resultText @ assessment_text s2, s2))
            else if primary = ''respiratory acidosis'' then
              (let rng = 3;
                   expectedAcuteHCO3 = 24 + (deltaPaco2 * 0.1);
                   expectedChronicHCO3 = 24 + (deltaPaco2 * 0.35);
                   measuredValue = hco3;
                   (s1, resultText) =
                     (if \<bar>measuredValue - expectedAcuteHCO3\<bar> < \<bar>measuredValue - expectedChronicHCO3\<bar> then
                        (s\<lparr>compensationType := Some ''acute'', expectedCompensationValue := Some expectedAcuteHCO3\<rparr>,
                         msg_acute HCO3 expectedAcuteHCO3 rng measuredValue)
                      else
                        (s\<lparr>compensationType := Some ''chronic'', expectedCompensationValue := Some expectedChronicHCO3\<rparr>,
                         msg_chronic HCO3 expectedChronicHCO3 rng measuredValue));
                   s2 = assess measuredValue (the (expectedCompensationValue s1)) rng
                          ''metabolic acidosis'' ''metabolic alkalosis'' s1
               in (resultText @ assessment_text s2, s2))
            else if primary = ''respiratory alkalosis'' then
              (let rng = 3;
                   expectedAcuteHCO3_alk = 24 + (deltaPaco2 * 0.2);
                   expectedChronicHCO3_alk = 24 + (deltaPaco2 * 0.5);
                   measuredValue = hco3;
                   (s1, resultText) =
                     (if \<bar>measuredValue - expectedAcuteHCO3_alk\<bar> < \<bar>measuredValue - expectedChronicHCO3_alk\<bar> then
                        (s\<lparr>compensationType := Some ''acute'', expectedCompensationValue := Some expectedAcuteHCO3_alk\<rparr>,
                         msg_acute HCO3 expectedAcuteHCO3_alk rng measuredValue)
                      else
                        (s\<lparr>compensationType := Some ''chronic'', expectedCompensationValue := Some expectedChronicHCO3_alk\<rparr>,
                         msg_chronic HCO3 expectedChronicHCO3_alk rng measuredValue));
                   s2 = assess measuredValue (the (expectedCompensationValue s1)) rng
                          ''metabolic acidosis'' ''metabolic alkalosis'' s1
               in (resultText @ assessment_text s2, s2))
            else (msg_unknown_primary, s))"

subsection \<open>Step 5: anion gap\<close>

definition msg_cannot_ag :: message where
  "msg_cannot_ag = [Lit ''Cannot calculate Anion Gap: Invalid Na'', sup_plus, Lit '', Cl'', sup_minus,
     Lit '', or HCO'', sub3, sup_minus, Lit '' value.'']"

definition msg_anion_gap :: "real \<Rightarrow> message" where
  "msg_anion_gap ag = [Lit ''Anion Gap = '', Fixed ag 1, Lit '' mmol/L'']"

definition msg_corrected :: "real \<Rightarrow> real \<Rightarrow> message" where
  "msg_corrected albuminNum corrected =
     [Lit '' (Normal '', approx, Lit '' 8-12). Albumin = '', Fixed albuminNum 1,
      Lit '' g/dL. Corrected AG '', approx, Lit '' '', Fixed corrected 1, Lit '' mmol/L.'']"

definition msg_normal_range :: message where
  "msg_normal_range = [Lit '' (Normal '', approx, Lit '' 8-12).'']"

definition msg_invalid_albumin :: message where
  "msg_invalid_albumin = [Lit '' (Invalid albumin value provided for correction).'']"

definition msg_albumin_not_needed :: message where
  "msg_albumin_not_needed = [Lit '' (Albumin correction not needed).'']"

definition msg_elevated :: message where
  "msg_elevated = [Lit '' Elevated Anion Gap.'']"

definition msg_suggests_hagma :: message where
  "msg_suggests_hagma = [Lit '' Suggests additional High AG Metabolic Acidosis.'']"

definition msg_normal_ag :: message where
  "msg_normal_ag = [Lit '' Normal Anion Gap.'']"

text \<open>The condition under which step 5 and step 6 use the albumin value.\<close>

definition albumin_usable :: "jsval \<Rightarrow> bool" where
  "albumin_usable albumin =
     (albumin \<noteq> JUndefined \<and>
      (case parseFloat albumin of None \<Rightarrow> False | Some albuminNum \<Rightarrow> albuminNum < 4.0 \<and> albuminNum \<ge> 0))"

definition calculateAnionGap :: "jsval \<Rightarrow> jsval \<Rightarrow> jsval \<Rightarrow> jsval \<Rightarrow> analysis_state \<Rightarrow> message \<times> analysis_state" where
  "calculateAnionGap na cl hco3 albumin s =
     (case (to_num na, to_num cl, to_num hco3) of
        (Some n, Some c, Some h) \<Rightarrow>
          (let ag = n - (c + h);
               s1 = s\<lparr>anionGap := Some ag\<rparr>;
               resultText = msg_anion_gap ag;
               albuminNum = parseFloat albumin;
               (s2, resultText2) =
                 (if albumin_usable albumin then
                    (let corrected = ag + 2.5 * (4.0 - the albuminNum)
                     in (s1\<lparr>correctedAnionGap := Some corrected\<rparr>,
                         resultText @ msg_corrected (the albuminNum) corrected))
                  else
                    (s1\<lparr>correctedAnionGap := Some ag\<rparr>,
                     resultText @ msg_normal_range @
                       (if albumin \<noteq> JUndefined \<and> (albuminNum = None \<or> nlt albuminNum (Some 0)) then
                          msg_invalid_albumin
                        else if albumin \<noteq> JUndefined \<and> nge albuminNum (Some 4.0) then
                          msg_albumin_not_needed
                        else [])));
               agToCheck = the (correctedAnionGap s2)
           in if agToCheck > 12 then
                (if primaryDisorder s2 \<noteq> Some ''metabolic acidosis'' \<and>
                    ''high anion gap metabolic acidosis'' \<notin> set (additionalDisorders s2) then
                   (resultText2 @ msg_elevated @ msg_suggests_hagma,
                    s2\<lparr>additionalDisorders := additionalDisorders s2 @ [''high anion gap metabolic acidosis'']\<rparr>)
                 else (resultText2 @ msg_elevated, s2))
              else (resultText2 @ msg_normal_ag, s2))
      | _ \<Rightarrow> (msg_cannot_ag, s))"

subsection \<open>Step 6: delta ratio\<close>

definition msg_cannot_delta :: message where
  "msg_cannot_delta = [Lit ''Cannot calculate Delta Ratio: Invalid AG or HCO'', sub3, sup_minus, Lit '' value.'']"

definition msg_delta_zero :: message where
  "msg_delta_zero =
     [Lit ''Delta Ratio not calculable ('', Delta, Lit ''HCO'', sub3, sup_minus,
      Lit '' is 0). High AG with normal HCO'', sub3, sup_minus,
      Lit '' suggests concurrent Metabolic Alkalosis.'']"

definition msg_delta_negative :: "real \<Rightarrow> message" where
  "msg_delta_negative deltaHCO3 =
     [Lit ''Delta Ratio interpretation complex ('', Delta, Lit ''HCO'', sub3, sup_minus,
      Lit '' is negative: '', Fixed deltaHCO3 1, Lit ''). High AG with elevated HCO'', sub3, sup_minus,
      Lit '' suggests concurrent Metabolic Alkalosis.'']"

definition msg_delta_ratio :: "real \<Rightarrow> real \<Rightarrow> message" where
  "msg_delta_ratio ratio normalAG =
     [Lit ''Delta Ratio ('', Delta, Lit ''AG/'', Delta, Lit ''HCO'', sub3, sup_minus,
      Lit '') = '', Fixed ratio 1, Lit ''. (Normal AG adjusted to '', Fixed normalAG 1,
      Lit '' if albumin provided).'']"

definition msg_ratio_low :: message where
  "msg_ratio_low = [Lit '' Ratio < 1.0 suggests concurrent Normal Anion Gap Metabolic Acidosis (NAGMA).'']"

definition msg_ratio_high :: message where
  "msg_ratio_high = [Lit '' Ratio > 2.0 suggests concurrent Metabolic Alkalosis.'']"

definition msg_ratio_pure :: message where
  "msg_ratio_pure = [Lit '' Ratio '', approx,
     Lit '' 1-2 is consistent with uncomplicated High Anion Gap Metabolic Acidosis.'']"

definition evaluateDeltaRatio :: "jsval \<Rightarrow> jsval \<Rightarrow> jsval \<Rightarrow> analysis_state \<Rightarrow> message \<times> analysis_state" where
  "evaluateDeltaRatio anionGap_arg hco3 albumin s =
     (case (to_num anionGap_arg, to_num hco3) of
        (Some ag, Some h) \<Rightarrow>
          (let normalAG = (if albumin_usable albumin
                           then max 3 (12 - (2.5 * (4.0 - the (parseFloat albumin)))) else 12);
               deltaAG = ag - normalAG;
               deltaHCO3 = 24 - h
           in if deltaHCO3 = 0 then
                (msg_delta_zero,
                 s\<lparr>deltaRatioAssessment := Some ''concurrent met alk likely (delta HCO3 is zero)''\<rparr>)
              else if deltaHCO3 < 0 then
                (msg_delta_negative deltaHCO3,
                 s\<lparr>deltaRatioAssessment := Some ''concurrent met alk likely (delta HCO3 negative)''\<rparr>)
              else
                (let ratio = deltaAG / deltaHCO3;
                     s1 = s\<lparr>deltaRatio := Some ratio\<rparr>;
                     resultText = msg_delta_ratio ratio normalAG
                 in if ratio < 1.0 then
                      (resultText @ msg_ratio_low,
                       (if ''normal anion gap metabolic acidosis'' \<notin> set (additionalDisorders s1) then
                          s1\<lparr>deltaRatioAssessment := Some ''concurrent NAGMA'',
                             additionalDisorders := additionalDisorders s1 @ [''normal anion gap metabolic acidosis'']\<rparr>
                        else s1\<lparr>deltaRatioAssessment := Some ''concurrent NAGMA''\<rparr>))
                    else if ratio > 2.0 then
                      (resultText @ msg_ratio_high,
                       (if ''metabolic alkalosis'' \<notin> set (additionalDisorders s1) then
                          s1\<lparr>deltaRatioAssessment := Some ''concurrent met alk'',
                             additionalDisorders := additionalDisorders s1 @ [''metabolic alkalosis'']\<rparr>
                        else s1\<lparr>deltaRatioAssessment := Some ''concurrent met alk''\<rparr>))
                    else
                      (resultText @ msg_ratio_pure,
                       s1\<lparr>deltaRatioAssessment := Some ''pure HAGMA''\<rparr>)))
      | _ \<Rightarrow> (msg_cannot_delta, s))"

subsection \<open>Final interpretation\<close>

definition generateFinalInterpretation :: "analysis_results \<Rightarrow> analysis_state \<Rightarrow> message" where
  "generateFinalInterpretation r s =
     (if truthy_text (error r) then Lit ''Analysis Error: '' # the (error r)
      else case primaryDisorder s of
        None \<Rightarrow> [Lit ''Unable to determine final interpretation.'']
      | Some pd \<Rightarrow>
          if pd = [] \<or> pd = ''Undetermined'' then [Lit ''Unable to determine final interpretation.'']
          else if pd = ''normal'' then [Lit ''Normal acid-base status.'']
          else
            let interpretation = ''Primary '' @ trim (remove_first ''compensated'' (underscores_to_spaces pd));
                interpretation2 =
                  (if pd = ''compensated'' \<or> acidBaseStatus s = Some ''normal'' then
                     interpretation @ '' with complete compensation''
                   else if compensationAssessment s = Some ''appropriate'' then
                     interpretation @ '' with expected compensation''
                   else interpretation);
                uniqueAdditional = set_spread (additionalDisorders s);
                filteredAdditional = filter (\<lambda>disorder.
                  if pd = ''metabolic acidosis'' \<and> disorder = ''high anion gap metabolic acidosis'' then False
                  else if pd = ''metabolic acidosis'' \<and> disorder = ''normal anion gap metabolic acidosis''
                          \<and> null_le (anionGap s) 12 then False
                  else if pd = ''metabolic alkalosis'' \<and> disorder = ''metabolic alkalosis'' then False
                  else if pd = ''respiratory acidosis'' \<and> disorder = ''respiratory acidosis'' then False
                  else if pd = ''respiratory alkalosis'' \<and> disorder = ''respiratory alkalosis'' then False
                  else True) uniqueAdditional;
                interpretation3 =
                  (if length filteredAdditional > 0 then
                     interpretation2 @ '' and superimposed '' @
                       join '' and '' (map underscores_to_spaces filteredAdditional)
                   else interpretation2)
            in [Lit (trim interpretation3 @ ''.'')])"

subsection \<open>The analysis\<close>

text \<open>
  The statements of the \<open>try\<close> block of \<open>analyze\<close>, one definition each; every one takes
  the analyzer object and returns it updated.
\<close>

definition run_step1 :: "real \<Rightarrow> real \<Rightarrow> real \<Rightarrow> analyzer \<Rightarrow> analyzer" where
  "run_step1 ph paco2 hco3 this =
     this\<lparr>results := (results this)\<lparr>step1 := checkInternalConsistency ph paco2 hco3\<rparr>\<rparr>"

definition run_step2 :: "real \<Rightarrow> analyzer \<Rightarrow> analyzer" where
  "run_step2 ph this =
     (let (t, s) = determineAcidemiaAlkalemia ph (state this)
      in this\<lparr>results := (results this)\<lparr>step2 := t\<rparr>, state := s\<rparr>)"

definition run_step3 :: "real \<Rightarrow> real \<Rightarrow> real \<Rightarrow> analyzer \<Rightarrow> analyzer" where
  "run_step3 ph paco2 hco3 this =
     (let (t, s) = identifyPrimaryDisorder ph paco2 hco3 (state this)
      in this\<lparr>results := (results this)\<lparr>step3 := t\<rparr>, state := s\<rparr>)"

definition run_step4 :: "real \<Rightarrow> real \<Rightarrow> analyzer \<Rightarrow> analyzer" where
  "run_step4 paco2 hco3 this =
     (let (t, s) = evaluateCompensation paco2 hco3 (state this)
      in this\<lparr>results := (results this)\<lparr>step4 := t\<rparr>, state := s\<rparr>)"

definition msg_step5_skipped :: message where
  "msg_step5_skipped = [Lit ''Skipped: Na'', sup_plus, Lit '' and Cl'', sup_minus,
     Lit '' values required for Anion Gap calculation.'']"

definition msg_ag_not_elevated :: message where
  "msg_ag_not_elevated = [Lit ''Not Applicable: Anion gap is not elevated.'']"

definition msg_not_met_acidosis :: message where
  "msg_not_met_acidosis = [Lit ''Not Applicable: Primary disorder is not metabolic acidosis.'']"

definition msg_step6_skipped :: message where
  "msg_step6_skipped = [Lit ''Skipped: Anion gap calculation was skipped or failed.'']"

definition run_step5 :: "measurement_set \<Rightarrow> analyzer \<Rightarrow> analyzer" where
  "run_step5 values this =
     (if get values ''na'' \<noteq> JUndefined \<and> get values ''cl'' \<noteq> JUndefined \<and> get values ''hco3'' \<noteq> JUndefined then
        (let (t, s) = calculateAnionGap (get values ''na'') (get values ''cl'') (get values ''hco3'')
                        (get values ''albumin'') (state this)
         in this\<lparr>results := (results this)\<lparr>step5 := t\<rparr>, state := s\<rparr>)
      else
        this\<lparr>results := (results this)\<lparr>step5 := msg_step5_skipped\<rparr>,
             state := (state this)\<lparr>anionGap := None\<rparr>\<rparr>)"

text \<open>
  Step 6 calls \<open>evaluateDeltaRatio\<close> with two arguments, so its third parameter
  \<open>albumin\<close> is \<open>undefined\<close> there.
\<close>

definition run_step6 :: "measurement_set \<Rightarrow> analyzer \<Rightarrow> analyzer" where
  "run_step6 values this =
     (let agToCheck = (case correctedAnionGap (state this) of
                         Some g \<Rightarrow> Some g | None \<Rightarrow> anionGap (state this))
      in if agToCheck \<noteq> None \<and> the agToCheck > 12 \<and>
            primaryDisorder (state this) = Some ''metabolic acidosis'' then
           (let (t, s) = evaluateDeltaRatio (JNum (the agToCheck)) (get values ''hco3'') JUndefined (state this)
            in this\<lparr>results := (results this)\<lparr>step6 := t\<rparr>, state := s\<rparr>)
         else if agToCheck \<noteq> None \<and> the agToCheck \<le> 12 \<and>
            primaryDisorder (state this) = Some ''metabolic acidosis'' then
           this\<lparr>results := (results this)\<lparr>step6 := msg_ag_not_elevated\<rparr>\<rparr>
         else if primaryDisorder (state this) \<noteq> Some ''metabolic acidosis'' then
           this\<lparr>results := (results this)\<lparr>step6 := msg_not_met_acidosis\<rparr>\<rparr>
         else
           this\<lparr>results := (results this)\<lparr>step6 := msg_step6_skipped\<rparr>\<rparr>)"

definition run_final :: "analyzer \<Rightarrow> analyzer" where
  "run_final this =
     this\<lparr>results := (results this)\<lparr>finalInterpretation :=
       generateFinalInterpretation (results this) (state this)\<rparr>\<rparr>"

text \<open>
  \<open>analyze\<close>. When \<open>validateInputs\<close> has accepted the values, the three required ones
  are numbers (lemma \<open>validateInputs_accepts\<close> below), and on numbers no statement of
  the \<open>try\<close> block throws: the \<open>catch\<close> branch is not reached and has no counterpart
  here. The last case of the \<open>case\<close> is there for totality only.
\<close>

definition analyze :: "analyzer \<Rightarrow> measurement_set \<Rightarrow> analyzer" where
  "analyze this values =
     (let this0 = resetStateAndResults this;
          (ok, r) = validateInputs values (results this0);
          this1 = this0\<lparr>results := r\<rparr>
      in if \<not> ok then this1
         else case (get values ''ph'', get values ''paco2'', get values ''hco3'') of
           (JNum ph, JNum paco2, JNum hco3) \<Rightarrow>
             run_final (run_step6 values (run_step5 values (run_step4 paco2 hco3
               (run_step3 ph paco2 hco3 (run_step2 ph (run_step1 ph paco2 hco3 this1))))))
         | _ \<Rightarrow> this1)"

text \<open>The analyzer object as \<open>resetStateAndResults\<close> leaves it.\<close>

definition fresh :: analyzer where
  "fresh = \<lparr>results = empty_results, state = empty_state\<rparr>"

text \<open>The states that \<open>analyze\<close> has after step 3 and after step 4, on valid inputs.\<close>

definition state3 :: "real \<Rightarrow> real \<Rightarrow> real \<Rightarrow> analysis_state" where
  "state3 ph paco2 hco3 =
     snd (identifyPrimaryDisorder ph paco2 hco3 (snd (determineAcidemiaAlkalemia ph empty_state)))"

definition state4 :: "real \<Rightarrow> real \<Rightarrow> real \<Rightarrow> analysis_state" where
  "state4 ph paco2 hco3 = snd (evaluateCompensation paco2 hco3 (state3 ph paco2 hco3))"

subsection \<open>The wording of the specification\<close>


definition spec_acidosis_direction :: "string \<Rightarrow> string" where
  "spec_acidosis_direction primary =
     (if primary = ''metabolic acidosis'' \<or> primary = ''metabolic alkalosis''
      then ''respiratory acidosis'' else ''metabolic acidosis'')"

text \<open>
  The decision table of section 4.4, as written. Its last row, "any other single
  abnormal value", is read as: exactly one of paco2 and hco3 lies outside its normal
  range (35 to 45, 22 to 26). Where the table says nothing the result is \<open>None\<close>.
\<close>

definition spec_primary :: "string \<Rightarrow> real \<Rightarrow> real \<Rightarrow> string option" where
  "spec_primary status paco2 hco3 =
     (if status = ''acidemia'' then
        (if paco2 > 45 then Some ''respiratory acidosis''
         else if hco3 < 22 then Some ''metabolic acidosis''
         else Some ''mixed acidemia'')
      else if status = ''alkalemia'' then
        (if paco2 < 35 then Some ''respiratory alkalosis''
         else if hco3 > 26 then Some ''metabolic alkalosis''
         else Some ''mixed alkalemia'')
      else if status = ''normal'' then
        (if paco2 > 45 \<and> hco3 > 26 then Some ''mixed compensated resp acid + met alk''
         else if paco2 < 35 \<and> hco3 < 22 then Some ''mixed compensated resp alk + met acid''
         else if 35 \<le> paco2 \<and> paco2 \<le> 45 \<and> 22 \<le> hco3 \<and> hco3 \<le> 26 then Some ''normal''
         else if (paco2 < 35 \<or> paco2 > 45) \<noteq> (hco3 < 22 \<or> hco3 > 26) then Some ''compensated''
         else None)
      else None)"

text \<open>
  The keys of the MeasurementSet that \<open>analyze\<close> reads. They are among the recognised
  keys of section 3 of the specification (required ph, paco2, hco3; optional na, cl,
  albumin, k, pao2, be, sao2).
\<close>

definition read_keys :: "string list" where
  "read_keys = [''ph'', ''paco2'', ''hco3'', ''na'', ''cl'', ''albumin'']"

section \<open>Properties of the stages\<close>

subsection \<open>Validation\<close>

lemma first_invalid_required:
  "first_invalid values required = None \<longleftrightarrow>
     (\<exists>ph paco2 hco3. get values ''ph'' = JNum ph \<and> get values ''paco2'' = JNum paco2 \<and>
        get values ''hco3'' = JNum hco3)"
proof -
  have num: "(v \<noteq> JUndefined \<and> v \<noteq> JNull \<and> \<not> isNaN v) = (\<exists>x. v = JNum x)" for v
    by (cases v) (simp_all add: isNaN_def)
  have "first_invalid values required = None \<longleftrightarrow>
      (\<exists>x. get values ''ph'' = JNum x) \<and> (\<exists>x. get values ''paco2'' = JNum x) \<and> (\<exists>x. get values ''hco3'' = JNum x)"
    unfolding required_def first_invalid.simps using num by auto 
  then show ?thesis by blast
qed

lemma validateInputs_num:
  assumes "get values ''ph'' = JNum ph" "get values ''paco2'' = JNum paco2" "get values ''hco3'' = JNum hco3"
  shows "validateInputs values r =
     (if ph < 6 \<or> ph > 8 then (False, r\<lparr>error := Some (msg_ph_range ph)\<rparr>)
      else if paco2 < 10 \<or> paco2 > 150 then (False, r\<lparr>error := Some (msg_paco2_range paco2)\<rparr>)
      else if hco3 < 2 \<or> hco3 > 60 then (False, r\<lparr>error := Some (msg_hco3_range hco3)\<rparr>)
      else (True, r))"
proof -
  have "first_invalid values required = None"
    using assms by (simp add: required_def isNaN_def)
  then show ?thesis
    using assms by (simp add: validateInputs_def nlt_def ngt_def)
qed

lemma validateInputs_missing:
  assumes "first_invalid values required = Some key"
  shows "validateInputs values r = (False, r\<lparr>error := Some (msg_missing key)\<rparr>)"
  using assms by (simp add: validateInputs_def)

lemma validateInputs_accepts:
  "fst (validateInputs values r) \<longleftrightarrow>
     (\<exists>ph paco2 hco3. get values ''ph'' = JNum ph \<and> get values ''paco2'' = JNum paco2 \<and>
        get values ''hco3'' = JNum hco3 \<and> 6 \<le> ph \<and> ph \<le> 8 \<and> 10 \<le> paco2 \<and> paco2 \<le> 150 \<and>
        2 \<le> hco3 \<and> hco3 \<le> 60)"
proof (cases "first_invalid values required")
  case None
  then obtain ph paco2 hco3 where v: "get values ''ph'' = JNum ph" "get values ''paco2'' = JNum paco2"
     "get values ''hco3'' = JNum hco3"
    using first_invalid_required by blast
  show ?thesis
    unfolding validateInputs_num[OF v] using v by auto
next
  case (Some key)
  then have "\<not> (\<exists>ph paco2 hco3. get values ''ph'' = JNum ph \<and> get values ''paco2'' = JNum paco2 \<and>
        get values ''hco3'' = JNum hco3)"
    using first_invalid_required[of "values"] by simp
  then show ?thesis unfolding validateInputs_missing[OF Some] by auto
qed

lemma validateInputs_ok:
  assumes "fst (validateInputs values r)"
  shows "validateInputs values r' = (True, r')"
proof -
  from assms obtain ph paco2 hco3 where v: "get values ''ph'' = JNum ph" "get values ''paco2'' = JNum paco2"
     "get values ''hco3'' = JNum hco3" and r: "6 \<le> ph" "ph \<le> 8" "10 \<le> paco2" "paco2 \<le> 150" "2 \<le> hco3" "hco3 \<le> 60"
    unfolding validateInputs_accepts by blast
  show ?thesis unfolding validateInputs_num[OF v] using r by simp
qed

lemma analyze_valid:
  assumes "get values ''ph'' = JNum ph" "get values ''paco2'' = JNum paco2" "get values ''hco3'' = JNum hco3"
    and "fst (validateInputs values r)"
  shows "analyze this values =
     run_final (run_step6 values (run_step5 values (run_step4 paco2 hco3
       (run_step3 ph paco2 hco3 (run_step2 ph (run_step1 ph paco2 hco3 fresh))))))"
  using assms(1-3) by (simp add: analyze_def resetStateAndResults_def validateInputs_ok[OF assms(4)] fresh_def)

lemma analyze_invalid:
  assumes "\<not> fst (validateInputs values empty_results)"
  shows "analyze this values = \<lparr>results = snd (validateInputs values empty_results), state = empty_state\<rparr>"
  using assms by (simp add: analyze_def resetStateAndResults_def case_prod_beta)

lemma state_run_step1: "state (run_step1 ph paco2 hco3 this) = state this"
  by (simp add: run_step1_def)

lemma state_run_step2: "state (run_step2 ph this) = snd (determineAcidemiaAlkalemia ph (state this))"
  by (simp add: run_step2_def case_prod_beta)

lemma state_run_step3: "state (run_step3 ph paco2 hco3 this) = snd (identifyPrimaryDisorder ph paco2 hco3 (state this))"
  by (simp add: run_step3_def case_prod_beta)

lemma state_run_step4: "state (run_step4 paco2 hco3 this) = snd (evaluateCompensation paco2 hco3 (state this))"
  by (simp add: run_step4_def case_prod_beta)

lemma state_run_final: "state (run_final this) = state this"
  by (simp add: run_final_def)

lemma state_fresh: "state fresh = empty_state"
  by (simp add: fresh_def)

lemma snd_determineAcidemiaAlkalemia:
  "snd (determineAcidemiaAlkalemia ph s) =
     s\<lparr>acidBaseStatus := Some (if ph < 7.35 then ''acidemia'' else if ph > 7.45 then ''alkalemia'' else ''normal'')\<rparr>"
  by (simp add: determineAcidemiaAlkalemia_def)

subsection \<open>The state after step 4\<close>

lemma evaluateCompensation_met_acidosis:
  assumes "primaryDisorder s = Some ''metabolic acidosis''"
  shows "snd (evaluateCompensation paco2 hco3 s) =
     assess paco2 (1.5 * hco3 + 8) 2 ''respiratory alkalosis'' ''respiratory acidosis''
       (s\<lparr>expectedCompensationValue := Some (1.5 * hco3 + 8)\<rparr>)"
  using assms by (simp add: evaluateCompensation_def Let_def)

lemma evaluateCompensation_met_alkalosis:
  assumes "primaryDisorder s = Some ''metabolic alkalosis''"
  shows "snd (evaluateCompensation paco2 hco3 s) =
     assess paco2 (40 + 0.6 * (hco3 - 24)) 5 ''respiratory alkalosis'' ''respiratory acidosis''
       (s\<lparr>expectedCompensationValue := Some (40 + 0.6 * (hco3 - 24))\<rparr>)"
  using assms by (simp add: evaluateCompensation_def Let_def)

lemma evaluateCompensation_resp_acidosis:
  assumes "primaryDisorder s = Some ''respiratory acidosis''"
  shows "snd (evaluateCompensation paco2 hco3 s) =
     (if \<bar>hco3 - (24 + (paco2 - 40) * 0.1)\<bar> < \<bar>hco3 - (24 + (paco2 - 40) * 0.35)\<bar> then
        assess hco3 (24 + (paco2 - 40) * 0.1) 3 ''metabolic acidosis'' ''metabolic alkalosis''
          (s\<lparr>compensationType := Some ''acute'', expectedCompensationValue := Some (24 + (paco2 - 40) * 0.1)\<rparr>)
      else
        assess hco3 (24 + (paco2 - 40) * 0.35) 3 ''metabolic acidosis'' ''metabolic alkalosis''
          (s\<lparr>compensationType := Some ''chronic'', expectedCompensationValue := Some (24 + (paco2 - 40) * 0.35)\<rparr>))"
  using assms by (simp add: evaluateCompensation_def Let_def del: abs_diff_less_iff)

lemma evaluateCompensation_resp_alkalosis:
  assumes "primaryDisorder s = Some ''respiratory alkalosis''"
  shows "snd (evaluateCompensation paco2 hco3 s) =
     (if \<bar>hco3 - (24 + (paco2 - 40) * 0.2)\<bar> < \<bar>hco3 - (24 + (paco2 - 40) * 0.5)\<bar> then
        assess hco3 (24 + (paco2 - 40) * 0.2) 3 ''metabolic acidosis'' ''metabolic alkalosis''
          (s\<lparr>compensationType := Some ''acute'', expectedCompensationValue := Some (24 + (paco2 - 40) * 0.2)\<rparr>)
      else
        assess hco3 (24 + (paco2 - 40) * 0.5) 3 ''metabolic acidosis'' ''metabolic alkalosis''
          (s\<lparr>compensationType := Some ''chronic'', expectedCompensationValue := Some (24 + (paco2 - 40) * 0.5)\<rparr>))"
  using assms by (simp add: evaluateCompensation_def Let_def)

lemma evaluateCompensation_other:
  assumes "primaryDisorder s \<noteq> Some ''metabolic acidosis''" "primaryDisorder s \<noteq> Some ''metabolic alkalosis''"
    "primaryDisorder s \<noteq> Some ''respiratory acidosis''" "primaryDisorder s \<noteq> Some ''respiratory alkalosis''"
  shows "snd (evaluateCompensation paco2 hco3 s) = s"
  using assms by (cases "primaryDisorder s") (simp_all add: evaluateCompensation_def Let_def)

subsection \<open>The state after steps 5 and 6\<close>

lemma calculateAnionGap_nan:
  assumes "to_num na = None \<or> to_num cl = None \<or> to_num hco3 = None"
  shows "calculateAnionGap na cl hco3 albumin s = (msg_cannot_ag, s)"
  using assms by (auto simp add: calculateAnionGap_def split: option.split)

lemma calculateAnionGap_num:
  assumes "to_num na = Some n" "to_num cl = Some c" "to_num hco3 = Some h"
  shows "snd (calculateAnionGap na cl hco3 albumin s) =
     s\<lparr>anionGap := Some (n - (c + h)),
       correctedAnionGap := Some (if albumin_usable albumin
          then n - (c + h) + 2.5 * (4.0 - the (parseFloat albumin)) else n - (c + h)),
       additionalDisorders :=
         (if (if albumin_usable albumin
              then n - (c + h) + 2.5 * (4.0 - the (parseFloat albumin)) else n - (c + h)) > 12 \<and>
             primaryDisorder s \<noteq> Some ''metabolic acidosis'' \<and>
             ''high anion gap metabolic acidosis'' \<notin> set (additionalDisorders s)
          then additionalDisorders s @ [''high anion gap metabolic acidosis'']
          else additionalDisorders s)\<rparr>"
  using assms by (simp add: calculateAnionGap_def Let_def)

lemma evaluateDeltaRatio_nan:
  assumes "to_num ag = None \<or> to_num hco3 = None"
  shows "evaluateDeltaRatio ag hco3 albumin s = (msg_cannot_delta, s)"
  using assms by (auto simp add: evaluateDeltaRatio_def split: option.split)

lemma evaluateDeltaRatio_num:
  assumes "to_num ag = Some a" "to_num hco3 = Some h"
    and "\<not> albumin_usable albumin"
  shows "snd (evaluateDeltaRatio ag hco3 albumin s) =
     (if 24 - h = 0 then s\<lparr>deltaRatioAssessment := Some ''concurrent met alk likely (delta HCO3 is zero)''\<rparr>
      else if 24 - h < 0 then s\<lparr>deltaRatioAssessment := Some ''concurrent met alk likely (delta HCO3 negative)''\<rparr>
      else if (a - 12) / (24 - h) < 1 then
        s\<lparr>deltaRatio := Some ((a - 12) / (24 - h)), deltaRatioAssessment := Some ''concurrent NAGMA'',
          additionalDisorders :=
            (if ''normal anion gap metabolic acidosis'' \<notin> set (additionalDisorders s)
             then additionalDisorders s @ [''normal anion gap metabolic acidosis''] else additionalDisorders s)\<rparr>
      else if (a - 12) / (24 - h) > 2 then
        s\<lparr>deltaRatio := Some ((a - 12) / (24 - h)), deltaRatioAssessment := Some ''concurrent met alk'',
          additionalDisorders :=
            (if ''metabolic alkalosis'' \<notin> set (additionalDisorders s)
             then additionalDisorders s @ [''metabolic alkalosis''] else additionalDisorders s)\<rparr>
      else s\<lparr>deltaRatio := Some ((a - 12) / (24 - h)), deltaRatioAssessment := Some ''pure HAGMA''\<rparr>)"
  using assms 
  by (simp add: evaluateDeltaRatio_def Let_def)

subsection \<open>What each stage leaves unchanged\<close>

lemma identifyPrimaryDisorder_frame:
  "snd (identifyPrimaryDisorder ph paco2 hco3 s) =
     s\<lparr>primaryDisorder := primaryDisorder (snd (identifyPrimaryDisorder ph paco2 hco3 s))\<rparr>"
  by (simp add: identifyPrimaryDisorder_def Let_def)

lemma assess_frame:
  "assess m e r lo hi s =
     s\<lparr>compensationAssessment := compensationAssessment (assess m e r lo hi s),
       additionalDisorders := additionalDisorders (assess m e r lo hi s)\<rparr>"
  by (simp add: assess_def)

lemma assess_fields:
  "acidBaseStatus (assess m e r lo hi s) = acidBaseStatus s"
  "primaryDisorder (assess m e r lo hi s) = primaryDisorder s"
  "compensationType (assess m e r lo hi s) = compensationType s"
  "expectedCompensationValue (assess m e r lo hi s) = expectedCompensationValue s"
  "anionGap (assess m e r lo hi s) = anionGap s"
  "correctedAnionGap (assess m e r lo hi s) = correctedAnionGap s"
  "deltaRatio (assess m e r lo hi s) = deltaRatio s"
  "deltaRatioAssessment (assess m e r lo hi s) = deltaRatioAssessment s"
  by (simp_all add: assess_def)

lemma evaluateCompensation_fields:
  "acidBaseStatus (snd (evaluateCompensation paco2 hco3 s)) = acidBaseStatus s"
  "primaryDisorder (snd (evaluateCompensation paco2 hco3 s)) = primaryDisorder s"
  "anionGap (snd (evaluateCompensation paco2 hco3 s)) = anionGap s"
  "correctedAnionGap (snd (evaluateCompensation paco2 hco3 s)) = correctedAnionGap s"
  "deltaRatio (snd (evaluateCompensation paco2 hco3 s)) = deltaRatio s"
  "deltaRatioAssessment (snd (evaluateCompensation paco2 hco3 s)) = deltaRatioAssessment s"
proof -
  consider (ma) "primaryDisorder s = Some ''metabolic acidosis''"
    | (malk) "primaryDisorder s = Some ''metabolic alkalosis''"
    | (ra) "primaryDisorder s = Some ''respiratory acidosis''"
    | (ralk) "primaryDisorder s = Some ''respiratory alkalosis''"
    | (other) "primaryDisorder s \<noteq> Some ''metabolic acidosis''" "primaryDisorder s \<noteq> Some ''metabolic alkalosis''"
       "primaryDisorder s \<noteq> Some ''respiratory acidosis''" "primaryDisorder s \<noteq> Some ''respiratory alkalosis''"
    by blast
  then have "acidBaseStatus (snd (evaluateCompensation paco2 hco3 s)) = acidBaseStatus s \<and>
     primaryDisorder (snd (evaluateCompensation paco2 hco3 s)) = primaryDisorder s \<and>
     anionGap (snd (evaluateCompensation paco2 hco3 s)) = anionGap s \<and>
     correctedAnionGap (snd (evaluateCompensation paco2 hco3 s)) = correctedAnionGap s \<and>
     deltaRatio (snd (evaluateCompensation paco2 hco3 s)) = deltaRatio s \<and>
     deltaRatioAssessment (snd (evaluateCompensation paco2 hco3 s)) = deltaRatioAssessment s"
  proof cases
    case ma then show ?thesis by (simp add: evaluateCompensation_met_acidosis assess_fields)
  next
    case malk then show ?thesis by (simp add: evaluateCompensation_met_alkalosis assess_fields)
  next
    case ra then show ?thesis by (simp add: evaluateCompensation_resp_acidosis assess_fields)
  next
    case ralk then show ?thesis by (simp add: evaluateCompensation_resp_alkalosis assess_fields)
  next
    case other then show ?thesis by (simp add: evaluateCompensation_other)
  qed
  then show "acidBaseStatus (snd (evaluateCompensation paco2 hco3 s)) = acidBaseStatus s"
  "primaryDisorder (snd (evaluateCompensation paco2 hco3 s)) = primaryDisorder s"
  "anionGap (snd (evaluateCompensation paco2 hco3 s)) = anionGap s"
  "correctedAnionGap (snd (evaluateCompensation paco2 hco3 s)) = correctedAnionGap s"
  "deltaRatio (snd (evaluateCompensation paco2 hco3 s)) = deltaRatio s"
  "deltaRatioAssessment (snd (evaluateCompensation paco2 hco3 s)) = deltaRatioAssessment s"
    by simp_all
qed

lemma to_num_cases: "to_num v = None \<or> (\<exists>x. to_num v = Some x)"
  by (cases "to_num v") simp_all

lemma calculateAnionGap_fields:
  "acidBaseStatus (snd (calculateAnionGap na cl hco3 albumin s)) = acidBaseStatus s"
  "primaryDisorder (snd (calculateAnionGap na cl hco3 albumin s)) = primaryDisorder s"
  "compensationType (snd (calculateAnionGap na cl hco3 albumin s)) = compensationType s"
  "expectedCompensationValue (snd (calculateAnionGap na cl hco3 albumin s)) = expectedCompensationValue s"
  "compensationAssessment (snd (calculateAnionGap na cl hco3 albumin s)) = compensationAssessment s"
  "deltaRatio (snd (calculateAnionGap na cl hco3 albumin s)) = deltaRatio s"
  "deltaRatioAssessment (snd (calculateAnionGap na cl hco3 albumin s)) = deltaRatioAssessment s"
proof -
  consider (nan) "to_num na = None \<or> to_num cl = None \<or> to_num hco3 = None"
    | (num) n c h where "to_num na = Some n" "to_num cl = Some c" "to_num hco3 = Some h"
    using to_num_cases by blast
  then have "acidBaseStatus (snd (calculateAnionGap na cl hco3 albumin s)) = acidBaseStatus s \<and>
  primaryDisorder (snd (calculateAnionGap na cl hco3 albumin s)) = primaryDisorder s \<and>
  compensationType (snd (calculateAnionGap na cl hco3 albumin s)) = compensationType s \<and>
  expectedCompensationValue (snd (calculateAnionGap na cl hco3 albumin s)) = expectedCompensationValue s \<and>
  compensationAssessment (snd (calculateAnionGap na cl hco3 albumin s)) = compensationAssessment s \<and>
  deltaRatio (snd (calculateAnionGap na cl hco3 albumin s)) = deltaRatio s \<and>
  deltaRatioAssessment (snd (calculateAnionGap na cl hco3 albumin s)) = deltaRatioAssessment s"
  proof cases
    case nan then show ?thesis by (simp add: calculateAnionGap_nan)
  next
    case num then show ?thesis by (simp add: calculateAnionGap_num)
  qed
  then show "acidBaseStatus (snd (calculateAnionGap na cl hco3 albumin s)) = acidBaseStatus s"
  "primaryDisorder (snd (calculateAnionGap na cl hco3 albumin s)) = primaryDisorder s"
  "compensationType (snd (calculateAnionGap na cl hco3 albumin s)) = compensationType s"
  "expectedCompensationValue (snd (calculateAnionGap na cl hco3 albumin s)) = expectedCompensationValue s"
  "compensationAssessment (snd (calculateAnionGap na cl hco3 albumin s)) = compensationAssessment s"
  "deltaRatio (snd (calculateAnionGap na cl hco3 albumin s)) = deltaRatio s"
  "deltaRatioAssessment (snd (calculateAnionGap na cl hco3 albumin s)) = deltaRatioAssessment s"
    by simp_all
qed

lemma albumin_usable_undefined: "\<not> albumin_usable JUndefined"
  by (simp add: albumin_usable_def)

lemma evaluateDeltaRatio_fields:
  assumes "\<not> albumin_usable albumin"
  shows "acidBaseStatus (snd (evaluateDeltaRatio ag hco3 albumin s)) = acidBaseStatus s"
  "primaryDisorder (snd (evaluateDeltaRatio ag hco3 albumin s)) = primaryDisorder s"
  "compensationType (snd (evaluateDeltaRatio ag hco3 albumin s)) = compensationType s"
  "expectedCompensationValue (snd (evaluateDeltaRatio ag hco3 albumin s)) = expectedCompensationValue s"
  "compensationAssessment (snd (evaluateDeltaRatio ag hco3 albumin s)) = compensationAssessment s"
  "anionGap (snd (evaluateDeltaRatio ag hco3 albumin s)) = anionGap s"
  "correctedAnionGap (snd (evaluateDeltaRatio ag hco3 albumin s)) = correctedAnionGap s"
proof -
  consider (nan) "to_num ag = None \<or> to_num hco3 = None"
    | (num) a h where "to_num ag = Some a" "to_num hco3 = Some h"
    using to_num_cases by blast
  then have "acidBaseStatus (snd (evaluateDeltaRatio ag hco3 albumin s)) = acidBaseStatus s \<and>
  primaryDisorder (snd (evaluateDeltaRatio ag hco3 albumin s)) = primaryDisorder s \<and>
  compensationType (snd (evaluateDeltaRatio ag hco3 albumin s)) = compensationType s \<and>
  expectedCompensationValue (snd (evaluateDeltaRatio ag hco3 albumin s)) = expectedCompensationValue s \<and>
  compensationAssessment (snd (evaluateDeltaRatio ag hco3 albumin s)) = compensationAssessment s \<and>
  anionGap (snd (evaluateDeltaRatio ag hco3 albumin s)) = anionGap s \<and>
  correctedAnionGap (snd (evaluateDeltaRatio ag hco3 albumin s)) = correctedAnionGap s"
  proof cases
    case nan then show ?thesis by (simp add: evaluateDeltaRatio_nan)
  next
    case num then show ?thesis by (simp add: evaluateDeltaRatio_num[OF num assms])
  qed
  then show "acidBaseStatus (snd (evaluateDeltaRatio ag hco3 albumin s)) = acidBaseStatus s"
  "primaryDisorder (snd (evaluateDeltaRatio ag hco3 albumin s)) = primaryDisorder s"
  "compensationType (snd (evaluateDeltaRatio ag hco3 albumin s)) = compensationType s"
  "expectedCompensationValue (snd (evaluateDeltaRatio ag hco3 albumin s)) = expectedCompensationValue s"
  "compensationAssessment (snd (evaluateDeltaRatio ag hco3 albumin s)) = compensationAssessment s"
  "anionGap (snd (evaluateDeltaRatio ag hco3 albumin s)) = anionGap s"
  "correctedAnionGap (snd (evaluateDeltaRatio ag hco3 albumin s)) = correctedAnionGap s"
    by simp_all
qed

lemma run_step5_fields:
  "acidBaseStatus (state (run_step5 values this)) = acidBaseStatus (state this)"
  "primaryDisorder (state (run_step5 values this)) = primaryDisorder (state this)"
  "compensationType (state (run_step5 values this)) = compensationType (state this)"
  "expectedCompensationValue (state (run_step5 values this)) = expectedCompensationValue (state this)"
  "compensationAssessment (state (run_step5 values this)) = compensationAssessment (state this)"
  "deltaRatio (state (run_step5 values this)) = deltaRatio (state this)"
  "deltaRatioAssessment (state (run_step5 values this)) = deltaRatioAssessment (state this)"
  by (simp_all add: run_step5_def case_prod_beta calculateAnionGap_fields)

lemma run_step6_fields:
  "acidBaseStatus (state (run_step6 values this)) = acidBaseStatus (state this)"
  "primaryDisorder (state (run_step6 values this)) = primaryDisorder (state this)"
  "compensationType (state (run_step6 values this)) = compensationType (state this)"
  "expectedCompensationValue (state (run_step6 values this)) = expectedCompensationValue (state this)"
  "compensationAssessment (state (run_step6 values this)) = compensationAssessment (state this)"
  "anionGap (state (run_step6 values this)) = anionGap (state this)"
  "correctedAnionGap (state (run_step6 values this)) = correctedAnionGap (state this)"
  by (simp_all add: run_step6_def Let_def case_prod_beta evaluateDeltaRatio_fields[OF albumin_usable_undefined])

lemma state_after_step3:
  "state (run_step3 ph paco2 hco3 (run_step2 ph (run_step1 ph paco2 hco3 fresh))) = state3 ph paco2 hco3"
  by (simp add: state3_def state_run_step3 state_run_step2 state_run_step1 state_fresh)

lemma state_after_step4:
  "state (run_step4 paco2 hco3 (run_step3 ph paco2 hco3 (run_step2 ph (run_step1 ph paco2 hco3 fresh))))
     = state4 ph paco2 hco3"
  by (simp add: state4_def state_run_step4 state_after_step3)

lemma state3_fields:
  "acidBaseStatus (state3 ph paco2 hco3) =
     Some (if ph < 7.35 then ''acidemia'' else if ph > 7.45 then ''alkalemia'' else ''normal'')"
  "additionalDisorders (state3 ph paco2 hco3) = []"
  "compensationType (state3 ph paco2 hco3) = None"
  "expectedCompensationValue (state3 ph paco2 hco3) = None"
  "compensationAssessment (state3 ph paco2 hco3) = None"
  "anionGap (state3 ph paco2 hco3) = None"
  "correctedAnionGap (state3 ph paco2 hco3) = None"
  "deltaRatio (state3 ph paco2 hco3) = None"
  "deltaRatioAssessment (state3 ph paco2 hco3) = None"
  unfolding state3_def
  by (subst identifyPrimaryDisorder_frame, simp add: snd_determineAcidemiaAlkalemia empty_state_def)+

text \<open>What the state returned by \<open>analyze\<close> keeps from steps 2 to 4.\<close>

lemma analyze_state:
  assumes "get values ''ph'' = JNum ph" "get values ''paco2'' = JNum paco2" "get values ''hco3'' = JNum hco3"
    and "fst (validateInputs values r)"
  shows "acidBaseStatus (state (analyze this values)) =
           Some (if ph < 7.35 then ''acidemia'' else if ph > 7.45 then ''alkalemia'' else ''normal'')"
    and "primaryDisorder (state (analyze this values)) = primaryDisorder (state3 ph paco2 hco3)"
    and "compensationType (state (analyze this values)) = compensationType (state4 ph paco2 hco3)"
    and "expectedCompensationValue (state (analyze this values)) = expectedCompensationValue (state4 ph paco2 hco3)"
    and "compensationAssessment (state (analyze this values)) = compensationAssessment (state4 ph paco2 hco3)"
  unfolding analyze_valid[OF assms]
  by (simp_all add: state_run_final run_step6_fields run_step5_fields state_after_step4 state4_def
       evaluateCompensation_fields state3_fields)

section \<open>The claims\<close>

subsection \<open>Step 2: classification of the pH\<close>

text \<open>
  C8: for every input that passes validation, acidBaseStatus in the returned state is
  decided by ph alone and is one of acidemia, alkalemia and normal: acidemia exactly
  when ph < 7.35, alkalemia exactly when ph > 7.45, normal otherwise; 7.35 and 7.45
  are normal.
\<close>

theorem C8_acidBaseStatus:
  assumes "fst (validateInputs values empty_results)"
    and "get values ''ph'' = JNum ph"
  shows "acidBaseStatus (state (analyze this values)) \<in> {Some ''acidemia'', Some ''alkalemia'', Some ''normal''} \<and>
     (acidBaseStatus (state (analyze this values)) = Some ''acidemia'' \<longleftrightarrow> ph < 7.35) \<and>
     (acidBaseStatus (state (analyze this values)) = Some ''alkalemia'' \<longleftrightarrow> ph > 7.45) \<and>
     (acidBaseStatus (state (analyze this values)) = Some ''normal'' \<longleftrightarrow> 7.35 \<le> ph \<and> ph \<le> 7.45)"
proof -
  from assms(1) obtain ph' paco2 hco3 where v: "get values ''ph'' = JNum ph'" "get values ''paco2'' = JNum paco2"
      "get values ''hco3'' = JNum hco3"
    unfolding validateInputs_accepts by blast
  with assms(2) have "ph' = ph" by simp
  with v have v': "get values ''ph'' = JNum ph" "get values ''paco2'' = JNum paco2" "get values ''hco3'' = JNum hco3"
    by simp_all
  show ?thesis
    unfolding analyze_state(1)[OF v' assms(1)] by auto
qed

theorem C8_boundary_witness:
  "fst (validateInputs [''ph'' \<mapsto> JNum 7.35, ''paco2'' \<mapsto> JNum 40, ''hco3'' \<mapsto> JNum 24] empty_results) \<and>
   acidBaseStatus (state (analyze fresh [''ph'' \<mapsto> JNum 7.35, ''paco2'' \<mapsto> JNum 40, ''hco3'' \<mapsto> JNum 24]))
     = Some ''normal'' \<and>
   fst (validateInputs [''ph'' \<mapsto> JNum 7.45, ''paco2'' \<mapsto> JNum 40, ''hco3'' \<mapsto> JNum 24] empty_results) \<and>
   acidBaseStatus (state (analyze fresh [''ph'' \<mapsto> JNum 7.45, ''paco2'' \<mapsto> JNum 40, ''hco3'' \<mapsto> JNum 24]))
     = Some ''normal''"
proof -
  let ?m = "\<lambda>x. [''ph'' \<mapsto> JNum x, ''paco2'' \<mapsto> JNum 40, ''hco3'' \<mapsto> JNum 24]"
  have g: "get (?m x) ''ph'' = JNum x" "get (?m x) ''paco2'' = JNum 40" "get (?m x) ''hco3'' = JNum 24" for x
    by (simp_all add: get_def)
  have v1: "fst (validateInputs (?m 7.35) empty_results)"
    by (simp add: validateInputs_num[OF g])
  have v2: "fst (validateInputs (?m 7.45) empty_results)"
    by (simp add: validateInputs_num[OF g])
  show ?thesis
    using v1 v2 C8_acidBaseStatus[OF v1 g(1), of fresh] C8_acidBaseStatus[OF v2 g(1), of fresh]
    by simp
qed

subsection \<open>Step 4 in the returned state\<close>


lemma assess_additional:
  "additionalDisorders (assess m e r lo hi s) =
     (if \<bar>m - e\<bar> \<le> r then additionalDisorders s
      else if m < e - r then additionalDisorders s @ [lo] else additionalDisorders s @ [hi])"
  by (simp add: assess_def)






subsection \<open>Step 4: compensation\<close>






subsection \<open>Results of accepted and of rejected inputs; step 3\<close>

lemma error_fresh: "error (results fresh) = None"
  by (simp add: fresh_def empty_results_def)

lemma error_run_steps:
  "error (results (run_step1 ph paco2 hco3 this)) = error (results this)"
  "error (results (run_step2 ph this)) = error (results this)"
  "error (results (run_step3 ph paco2 hco3 this)) = error (results this)"
  "error (results (run_step4 paco2 hco3 this)) = error (results this)"
  "error (results (run_step5 values this)) = error (results this)"
  "error (results (run_step6 values this)) = error (results this)"
  by (simp_all add: run_step1_def run_step2_def run_step3_def run_step4_def run_step5_def run_step6_def
        case_prod_beta Let_def)

lemma analyze_accepted:
  assumes "fst (validateInputs values r)"
  shows "error (results (analyze this values)) = None"
    and "\<exists>r'. error r' = None \<and>
           finalInterpretation (results (analyze this values)) =
             generateFinalInterpretation r' (state (analyze this values))"
proof -
  from assms obtain ph paco2 hco3 where v: "get values ''ph'' = JNum ph" "get values ''paco2'' = JNum paco2"
      "get values ''hco3'' = JNum hco3"
    unfolding validateInputs_accepts by blast
  let ?t6 = "run_step6 values (run_step5 values (run_step4 paco2 hco3
       (run_step3 ph paco2 hco3 (run_step2 ph (run_step1 ph paco2 hco3 fresh)))))"
  have e: "error (results ?t6) = None"
    by (simp add: error_run_steps error_fresh)
  show "error (results (analyze this values)) = None"
    unfolding analyze_valid[OF v assms] using e by (simp add: run_final_def)
  have "finalInterpretation (results (analyze this values)) =
      generateFinalInterpretation (results ?t6) (state (analyze this values))"
    unfolding analyze_valid[OF v assms] by (simp add: run_final_def)
  with e show "\<exists>r'. error r' = None \<and>
           finalInterpretation (results (analyze this values)) =
             generateFinalInterpretation r' (state (analyze this values))"
    by blast
qed

lemma analyze_rejected:
  assumes "\<not> fst (validateInputs values empty_results)"
  shows "state (analyze this values) = empty_state"
    and "error (results (analyze this values)) \<noteq> None"
    and "step1 (results (analyze this values)) = [] \<and> step2 (results (analyze this values)) = [] \<and>
         step3 (results (analyze this values)) = [] \<and> step4 (results (analyze this values)) = [] \<and>
         step5 (results (analyze this values)) = [] \<and> step6 (results (analyze this values)) = [] \<and>
         finalInterpretation (results (analyze this values)) = []"
proof -
  have r: "\<exists>e. snd (validateInputs values empty_results) = empty_results\<lparr>error := Some e\<rparr>"
  proof (cases "first_invalid values required")
    case (Some key)
    show ?thesis unfolding validateInputs_missing[OF Some] by (intro exI) simp
  next
    case None
    then obtain ph paco2 hco3 where v: "get values ''ph'' = JNum ph" "get values ''paco2'' = JNum paco2"
        "get values ''hco3'' = JNum hco3"
      using first_invalid_required by blast
    show ?thesis
      using assms unfolding validateInputs_num[OF v] by (auto split: if_splits)
  qed
  then obtain e where e: "snd (validateInputs values empty_results) = empty_results\<lparr>error := Some e\<rparr>" ..
  show "state (analyze this values) = empty_state"
    unfolding analyze_invalid[OF assms] by simp
  show "error (results (analyze this values)) \<noteq> None"
    unfolding analyze_invalid[OF assms] e by simp
  show "step1 (results (analyze this values)) = [] \<and> step2 (results (analyze this values)) = [] \<and>
         step3 (results (analyze this values)) = [] \<and> step4 (results (analyze this values)) = [] \<and>
         step5 (results (analyze this values)) = [] \<and> step6 (results (analyze this values)) = [] \<and>
         finalInterpretation (results (analyze this values)) = []"
    unfolding analyze_invalid[OF assms] e by (simp add: empty_results_def)
qed

lemma generateFinalInterpretation_normal:
  assumes "error r = None" "primaryDisorder s = Some ''normal''"
  shows "generateFinalInterpretation r s = [Lit ''Normal acid-base status.'']"
  using assms by (simp add: generateFinalInterpretation_def truthy_text_def)

lemma identifyPrimaryDisorder_acidemia:
  assumes "acidBaseStatus s = Some ''acidemia''"
  shows "primaryDisorder (snd (identifyPrimaryDisorder ph paco2 hco3 s)) =
     Some (if paco2 > 45 then ''respiratory acidosis''
           else if hco3 < 22 then ''metabolic acidosis'' else ''mixed acidemia'')"
  using assms by (simp add: identifyPrimaryDisorder_def Let_def)

lemma identifyPrimaryDisorder_alkalemia:
  assumes "acidBaseStatus s = Some ''alkalemia''"
  shows "primaryDisorder (snd (identifyPrimaryDisorder ph paco2 hco3 s)) =
     Some (if paco2 < 35 then ''respiratory alkalosis''
           else if hco3 > 26 then ''metabolic alkalosis'' else ''mixed alkalemia'')"
  using assms by (simp add: identifyPrimaryDisorder_def Let_def)

lemma identifyPrimaryDisorder_normal:
  assumes "acidBaseStatus s = Some ''normal''"
  shows "primaryDisorder (snd (identifyPrimaryDisorder ph paco2 hco3 s)) =
     Some (if paco2 > 45 \<and> hco3 > 26 then ''mixed compensated resp acid + met alk''
           else if paco2 < 35 \<and> hco3 < 22 then ''mixed compensated resp alk + met acid''
           else if 35 \<le> paco2 \<and> paco2 \<le> 45 \<and> 22 \<le> hco3 \<and> hco3 \<le> 26 then ''normal''
           else ''compensated'')"
  using assms by (auto simp add: identifyPrimaryDisorder_def Let_def)

lemma identifyPrimaryDisorder_spec:
  assumes "acidBaseStatus s = Some status" "spec_primary status paco2 hco3 = Some d"
  shows "primaryDisorder (snd (identifyPrimaryDisorder ph paco2 hco3 s)) = Some d"
proof -
  have "status = ''acidemia'' \<or> status = ''alkalemia'' \<or> status = ''normal''"
    using assms(2) by (simp add: spec_primary_def split: if_splits)
  then show ?thesis
  proof (elim disjE)
    assume st: "status = ''acidemia''"
    then have "acidBaseStatus s = Some ''acidemia''" using assms(1) by simp
    from identifyPrimaryDisorder_acidemia[OF this, of ph paco2 hco3] assms(2) st show ?thesis
      by (auto simp add: spec_primary_def split: if_splits)
  next
    assume st: "status = ''alkalemia''"
    then have "acidBaseStatus s = Some ''alkalemia''" using assms(1) by simp
    from identifyPrimaryDisorder_alkalemia[OF this, of ph paco2 hco3] assms(2) st show ?thesis
      by (auto simp add: spec_primary_def split: if_splits)
  next
    assume st: "status = ''normal''"
    then have "acidBaseStatus s = Some ''normal''" using assms(1) by simp
    from identifyPrimaryDisorder_normal[OF this, of ph paco2 hco3] assms(2) st show ?thesis
      by (auto simp add: spec_primary_def split: if_splits)
  qed
qed

subsection \<open>Step 3: primary disorder\<close>

text \<open>
  C4: for every input that passes validation, primaryDisorder is the entry of the
  decision table of section 4.4 for the acid-base status, paco2 and hco3
  (\<open>spec_primary\<close>); and for ph 7.40, paco2 40, hco3 24 the primary disorder is normal
  and finalInterpretation is "Normal acid-base status.".
\<close>

theorem C4_primary_disorder:
  assumes "fst (validateInputs values empty_results)"
    and "get values ''paco2'' = JNum paco2" "get values ''hco3'' = JNum hco3"
    and "acidBaseStatus (state (analyze this values)) = Some status"
    and "spec_primary status paco2 hco3 = Some d"
  shows "primaryDisorder (state (analyze this values)) = Some d \<and>
     primaryDisorder (state (analyze this
        [''ph'' \<mapsto> JNum 7.40, ''paco2'' \<mapsto> JNum 40, ''hco3'' \<mapsto> JNum 24])) = Some ''normal'' \<and>
     finalInterpretation (results (analyze this
        [''ph'' \<mapsto> JNum 7.40, ''paco2'' \<mapsto> JNum 40, ''hco3'' \<mapsto> JNum 24]))
       = [Lit ''Normal acid-base status.'']"
proof -
  from assms(1) obtain ph paco2' hco3' where v: "get values ''ph'' = JNum ph" "get values ''paco2'' = JNum paco2'"
      "get values ''hco3'' = JNum hco3'"
    unfolding validateInputs_accepts by blast
  with assms(2,3) have v': "get values ''ph'' = JNum ph" "get values ''paco2'' = JNum paco2"
      "get values ''hco3'' = JNum hco3"
    by simp_all
  have "acidBaseStatus (snd (determineAcidemiaAlkalemia ph empty_state)) = Some status"
    using assms(4) unfolding analyze_state(1)[OF v' assms(1)] by (simp add: snd_determineAcidemiaAlkalemia)
  then have general: "primaryDisorder (state (analyze this values)) = Some d"
    unfolding analyze_state(2)[OF v' assms(1)] state3_def
    by (rule identifyPrimaryDisorder_spec) (rule assms(5))
  let ?B = "[''ph'' \<mapsto> JNum 7.40, ''paco2'' \<mapsto> JNum 40, ''hco3'' \<mapsto> JNum 24]"
  have g: "get ?B ''ph'' = JNum 7.40" "get ?B ''paco2'' = JNum 40" "get ?B ''hco3'' = JNum 24"
    by (simp_all add: get_def)
  have vb: "fst (validateInputs ?B empty_results)"
    using validateInputs_num[OF g, of empty_results] by simp
  have pb: "primaryDisorder (state (analyze this ?B)) = Some ''normal''"
    unfolding analyze_state(2)[OF g vb]
    by (simp add: state3_def snd_determineAcidemiaAlkalemia identifyPrimaryDisorder_def Let_def)
  from analyze_accepted(2)[OF vb, of this] obtain r' where r': "error r' = None"
     "finalInterpretation (results (analyze this ?B)) = generateFinalInterpretation r' (state (analyze this ?B))"
    by blast
  have fb: "finalInterpretation (results (analyze this ?B)) = [Lit ''Normal acid-base status.'']"
    unfolding r'(2) by (rule generateFinalInterpretation_normal[OF r'(1) pb])
  from general pb fb show ?thesis by blast
qed

theorem C4_scenario_B_witness:
  "fst (validateInputs [''ph'' \<mapsto> JNum 7.40, ''paco2'' \<mapsto> JNum 40, ''hco3'' \<mapsto> JNum 24] empty_results) \<and>
   acidBaseStatus (state (analyze fresh [''ph'' \<mapsto> JNum 7.40, ''paco2'' \<mapsto> JNum 40, ''hco3'' \<mapsto> JNum 24]))
     = Some ''normal'' \<and>
   spec_primary ''normal'' 40 24 = Some ''normal'' \<and>
   primaryDisorder (state (analyze fresh [''ph'' \<mapsto> JNum 7.40, ''paco2'' \<mapsto> JNum 40, ''hco3'' \<mapsto> JNum 24]))
     = Some ''normal'' \<and>
   finalInterpretation (results (analyze fresh [''ph'' \<mapsto> JNum 7.40, ''paco2'' \<mapsto> JNum 40, ''hco3'' \<mapsto> JNum 24]))
     = [Lit ''Normal acid-base status.'']"
proof -
  let ?B = "[''ph'' \<mapsto> JNum 7.40, ''paco2'' \<mapsto> JNum 40, ''hco3'' \<mapsto> JNum 24]"
  have g: "get ?B ''ph'' = JNum 7.40" "get ?B ''paco2'' = JNum 40" "get ?B ''hco3'' = JNum 24"
    by (simp_all add: get_def)
  have vb: "fst (validateInputs ?B empty_results)"
    using validateInputs_num[OF g, of empty_results] by simp
  have sb: "acidBaseStatus (state (analyze fresh ?B)) = Some ''normal''"
    unfolding analyze_state(1)[OF g vb] by simp
  have sp: "spec_primary ''normal'' 40 24 = Some ''normal''"
    by (simp add: spec_primary_def)
  show ?thesis
    using vb sb sp C4_primary_disorder[OF vb g(2,3) sb sp] by simp
qed

text \<open>
  The table is silent on a normal pH with paco2 and hco3 abnormal in opposite
  directions; the code labels that case "compensated" too.
\<close>

lemma primary_disorder_opposite_directions:
  "primaryDisorder (state (analyze this [''ph'' \<mapsto> JNum 7.40, ''paco2'' \<mapsto> JNum 50, ''hco3'' \<mapsto> JNum 20]))
     = Some ''compensated'' \<and> spec_primary ''normal'' 50 20 = None"
proof -
  let ?B = "[''ph'' \<mapsto> JNum 7.40, ''paco2'' \<mapsto> JNum 50, ''hco3'' \<mapsto> JNum 20]"
  have g: "get ?B ''ph'' = JNum 7.40" "get ?B ''paco2'' = JNum 50" "get ?B ''hco3'' = JNum 20"
    by (simp_all add: get_def)
  have vb: "fst (validateInputs ?B empty_results)"
    using validateInputs_num[OF g, of empty_results] by simp
  show ?thesis
    unfolding analyze_state(2)[OF g vb]
    by (simp add: state3_def snd_determineAcidemiaAlkalemia identifyPrimaryDisorder_def Let_def spec_primary_def)
qed

subsection \<open>Validation\<close>

text \<open>
  What holds of C3: the steps run exactly when ph, paco2 and hco3 are numbers within
  [6, 8], [10, 150] and [2, 60]; otherwise the error is set, no step text is produced
  and the state stays as reset. A missing or non-numeric required value is reported
  under the name of the first such key in the order ph, paco2, hco3.
\<close>

lemma analyze_runs_iff:
  "step2 (results (analyze this values)) \<noteq> [] \<longleftrightarrow>
     (\<exists>ph paco2 hco3. get values ''ph'' = JNum ph \<and> get values ''paco2'' = JNum paco2 \<and>
        get values ''hco3'' = JNum hco3 \<and> 6 \<le> ph \<and> ph \<le> 8 \<and> 10 \<le> paco2 \<and> paco2 \<le> 150 \<and>
        2 \<le> hco3 \<and> hco3 \<le> 60)"
proof (cases "fst (validateInputs values empty_results)")
  case True
  then obtain ph paco2 hco3 where v: "get values ''ph'' = JNum ph" "get values ''paco2'' = JNum paco2"
      "get values ''hco3'' = JNum hco3"
    unfolding validateInputs_accepts by blast
  have "step2 (results (analyze this values)) = fst (determineAcidemiaAlkalemia ph empty_state)"
    unfolding analyze_valid[OF v True]
    by (simp add: run_final_def run_step6_def run_step5_def run_step4_def run_step3_def run_step2_def
          run_step1_def case_prod_beta Let_def fresh_def)
  then have "step2 (results (analyze this values)) \<noteq> []"
    by (simp add: determineAcidemiaAlkalemia_def msg_acidemia_def msg_alkalemia_def msg_normal_ph_def)
  then show ?thesis using True unfolding validateInputs_accepts by simp
next
  case False
  then show ?thesis using analyze_rejected(3)[OF False, of this] unfolding validateInputs_accepts by simp
qed

lemma analyze_missing_field:
  assumes "first_invalid values required = Some key"
  shows "error (results (analyze this values)) = Some (msg_missing key)"
    and "key = ''ph'' \<or> get values ''ph'' \<noteq> JUndefined \<and> get values ''ph'' \<noteq> JNull \<and> \<not> isNaN (get values ''ph'')"
proof -
  have "\<not> fst (validateInputs values empty_results)"
    unfolding validateInputs_missing[OF assms] by simp
  from analyze_invalid[OF this] show "error (results (analyze this values)) = Some (msg_missing key)"
    unfolding validateInputs_missing[OF assms] by simp
  show "key = ''ph'' \<or> get values ''ph'' \<noteq> JUndefined \<and> get values ''ph'' \<noteq> JNull \<and> \<not> isNaN (get values ''ph'')"
    using assms by (auto simp add: required_def split: if_splits)
qed

text \<open>
  C3 fails where it says that the error of a range failure cites the expected range of
  the offending value. The range enforced for ph is [6.0, 8.0] and the one for hco3 is
  [2, 60], but the messages cite 6.8-8.0 and 5-60: ph 5.5 is rejected with a message
  that names 6.8-8.0 while ph 6.5 is accepted, and hco3 1 is rejected with a message that
  names 5-60 while hco3 3 is accepted. (The message for paco2 cites the 10-150 that is
  enforced.)
\<close>

theorem C3_range_message_mismatch:
  "error (results (analyze fresh [''ph'' \<mapsto> JNum 5.5, ''paco2'' \<mapsto> JNum 40, ''hco3'' \<mapsto> JNum 24]))
     = Some [Lit ''pH value ('', Str 5.5, Lit '') is outside typical physiological range (6.8-8.0).''] \<and>
   error (results (analyze fresh [''ph'' \<mapsto> JNum 6.5, ''paco2'' \<mapsto> JNum 40, ''hco3'' \<mapsto> JNum 24])) = None \<and>
   error (results (analyze fresh [''ph'' \<mapsto> JNum 7.4, ''paco2'' \<mapsto> JNum 40, ''hco3'' \<mapsto> JNum 1]))
     = Some [Lit ''HCO'', U 0x2083, U 0x207B, Lit '' value ('', Str 1,
             Lit '') is outside typical physiological range (5-60 mmol/L).''] \<and>
   error (results (analyze fresh [''ph'' \<mapsto> JNum 7.4, ''paco2'' \<mapsto> JNum 40, ''hco3'' \<mapsto> JNum 3])) = None"
proof -
  let ?m = "\<lambda>ph hco3. [''ph'' \<mapsto> JNum ph, ''paco2'' \<mapsto> JNum 40, ''hco3'' \<mapsto> JNum hco3]"
  have g: "get (?m ph hco3) ''ph'' = JNum ph" "get (?m ph hco3) ''paco2'' = JNum 40"
    "get (?m ph hco3) ''hco3'' = JNum hco3" for ph hco3
    by (simp_all add: get_def)
  have bad_ph: "validateInputs (?m 5.5 24) empty_results = (False, empty_results\<lparr>error := Some (msg_ph_range 5.5)\<rparr>)"
    unfolding validateInputs_num[OF g] by simp
  have bad_hco3: "validateInputs (?m 7.4 1) empty_results = (False, empty_results\<lparr>error := Some (msg_hco3_range 1)\<rparr>)"
    unfolding validateInputs_num[OF g] by simp
  have ok1: "fst (validateInputs (?m 6.5 24) empty_results)"
    unfolding validateInputs_num[OF g] by simp
  have ok2: "fst (validateInputs (?m 7.4 3) empty_results)"
    unfolding validateInputs_num[OF g] by simp
  have n1: "\<not> fst (validateInputs (?m 5.5 24) empty_results)" unfolding bad_ph by simp
  have n2: "\<not> fst (validateInputs (?m 7.4 1) empty_results)" unfolding bad_hco3 by simp
  have 1: "error (results (analyze fresh (?m 5.5 24)))
     = Some [Lit ''pH value ('', Str 5.5, Lit '') is outside typical physiological range (6.8-8.0).'']"
    unfolding analyze_invalid[OF n1] bad_ph by (simp add: msg_ph_range_def)
  have 2: "error (results (analyze fresh (?m 7.4 1)))
     = Some [Lit ''HCO'', U 0x2083, U 0x207B, Lit '' value ('', Str 1,
             Lit '') is outside typical physiological range (5-60 mmol/L).'']"
    unfolding analyze_invalid[OF n2] bad_hco3 by (simp add: msg_hco3_range_def sub3_def sup_minus_def)
  show ?thesis
    using 1 2 analyze_accepted(1)[OF ok1, of fresh] analyze_accepted(1)[OF ok2, of fresh] by blast
qed

subsection \<open>Step 5: anion gap\<close>



lemma state_run_step5_provided:
  assumes "get values ''na'' \<noteq> JUndefined" "get values ''cl'' \<noteq> JUndefined" "get values ''hco3'' \<noteq> JUndefined"
  shows "state (run_step5 values this) =
           snd (calculateAnionGap (get values ''na'') (get values ''cl'') (get values ''hco3'')
                  (get values ''albumin'') (state this))"
    and "step5 (results (run_step5 values this)) =
           fst (calculateAnionGap (get values ''na'') (get values ''cl'') (get values ''hco3'')
                  (get values ''albumin'') (state this))"
  using assms by (simp_all add: run_step5_def case_prod_beta)




subsection \<open>Step 6: delta ratio\<close>

lemma run_step6_elevated:
  assumes "correctedAnionGap (state this) = Some g" "g > 12"
    and "primaryDisorder (state this) = Some ''metabolic acidosis''"
  shows "state (run_step6 values this) =
           snd (evaluateDeltaRatio (JNum g) (get values ''hco3'') JUndefined (state this))"
    and "step6 (results (run_step6 values this)) =
           fst (evaluateDeltaRatio (JNum g) (get values ''hco3'') JUndefined (state this))"
  using assms by (simp_all add: run_step6_def case_prod_beta)

text \<open>
  C1 does not hold of the code. \<open>evaluateDeltaRatio\<close> has a parameter \<open>albumin\<close> and
  adjusts the normal anion gap with it, as its documentation says ("Normal AG (Adjusted
  for Albumin)", "Pass AG, HCO3, and Albumin"), but \<open>analyze\<close> calls it with two
  arguments, so inside it \<open>albumin\<close> is \<open>undefined\<close> and the normal anion gap is always
  12. Input ph 7.2, paco2 26, hco3 12, na 140, cl 100, albumin 2.0: the corrected anion
  gap is 33 and the delta ratio stored is (33 - 12) / (24 - 12) = 1.75, "pure HAGMA",
  with the step text naming 12 as the normal anion gap. With the albumin passed the
  normal anion gap would be max 3 (12 - 2.5 * (4.0 - 2.0)) = 7 and the ratio
  (33 - 7) / (24 - 12), above 2: "concurrent met alk".
\<close>

theorem C1_normal_anion_gap_not_adjusted:
  "primaryDisorder (state (analyze fresh [''ph'' \<mapsto> JNum 7.2, ''paco2'' \<mapsto> JNum 26, ''hco3'' \<mapsto> JNum 12,
      ''na'' \<mapsto> JNum 140, ''cl'' \<mapsto> JNum 100, ''albumin'' \<mapsto> JNum 2.0])) = Some ''metabolic acidosis'' \<and>
   correctedAnionGap (state (analyze fresh [''ph'' \<mapsto> JNum 7.2, ''paco2'' \<mapsto> JNum 26, ''hco3'' \<mapsto> JNum 12,
      ''na'' \<mapsto> JNum 140, ''cl'' \<mapsto> JNum 100, ''albumin'' \<mapsto> JNum 2.0])) = Some 33 \<and>
   deltaRatio (state (analyze fresh [''ph'' \<mapsto> JNum 7.2, ''paco2'' \<mapsto> JNum 26, ''hco3'' \<mapsto> JNum 12,
      ''na'' \<mapsto> JNum 140, ''cl'' \<mapsto> JNum 100, ''albumin'' \<mapsto> JNum 2.0])) = Some ((33 - 12) / (24 - 12)) \<and>
   deltaRatioAssessment (state (analyze fresh [''ph'' \<mapsto> JNum 7.2, ''paco2'' \<mapsto> JNum 26, ''hco3'' \<mapsto> JNum 12,
      ''na'' \<mapsto> JNum 140, ''cl'' \<mapsto> JNum 100, ''albumin'' \<mapsto> JNum 2.0])) = Some ''pure HAGMA'' \<and>
   step6 (results (analyze fresh [''ph'' \<mapsto> JNum 7.2, ''paco2'' \<mapsto> JNum 26, ''hco3'' \<mapsto> JNum 12,
      ''na'' \<mapsto> JNum 140, ''cl'' \<mapsto> JNum 100, ''albumin'' \<mapsto> JNum 2.0]))
     = msg_delta_ratio ((33 - 12) / (24 - 12)) 12 @ msg_ratio_pure \<and>
   deltaRatio (snd (evaluateDeltaRatio (JNum 33) (JNum 12) (JNum 2.0) empty_state))
     = Some ((33 - max 3 (12 - 2.5 * (4.0 - 2.0))) / (24 - 12)) \<and>
   deltaRatioAssessment (snd (evaluateDeltaRatio (JNum 33) (JNum 12) (JNum 2.0) empty_state))
     = Some ''concurrent met alk''"
proof -
  let ?m = "[''ph'' \<mapsto> JNum 7.2, ''paco2'' \<mapsto> JNum 26, ''hco3'' \<mapsto> JNum 12,
      ''na'' \<mapsto> JNum 140, ''cl'' \<mapsto> JNum 100, ''albumin'' \<mapsto> JNum 2.0]"
  let ?t4 = "run_step4 26 12 (run_step3 7.2 26 12 (run_step2 7.2 (run_step1 7.2 26 12 fresh)))"
  have g: "get ?m ''ph'' = JNum 7.2" "get ?m ''paco2'' = JNum 26" "get ?m ''hco3'' = JNum 12"
    and e: "get ?m ''na'' = JNum 140" "get ?m ''cl'' = JNum 100" "get ?m ''albumin'' = JNum 2"
    by (simp_all add: get_def)
  have v: "fst (validateInputs ?m empty_results)"
    using validateInputs_num[OF g, of empty_results] by simp
  have p: "get ?m ''na'' \<noteq> JUndefined" "get ?m ''cl'' \<noteq> JUndefined" "get ?m ''hco3'' \<noteq> JUndefined"
    unfolding g e by simp_all
  have n: "to_num (get ?m ''na'') = Some 140" "to_num (get ?m ''cl'') = Some 100" "to_num (get ?m ''hco3'') = Some 12"
    unfolding g e by simp_all
  have p3: "primaryDisorder (state3 7.2 26 12) = Some ''metabolic acidosis''"
    by (simp add: state3_def snd_determineAcidemiaAlkalemia identifyPrimaryDisorder_def Let_def)
  have p4: "primaryDisorder (state ?t4) = Some ''metabolic acidosis''"
    unfolding state_after_step4 state4_def evaluateCompensation_fields by (rule p3)
  have p5: "primaryDisorder (state (run_step5 ?m ?t4)) = Some ''metabolic acidosis''"
    unfolding run_step5_fields by (rule p4)
  have usable: "albumin_usable (get ?m ''albumin'')"
    unfolding e by (simp add: albumin_usable_def)
  have c5: "correctedAnionGap (state (run_step5 ?m ?t4)) = Some 33"
    unfolding state_run_step5_provided(1)[OF p, of ?t4, unfolded calculateAnionGap_num[OF n]]
    using usable e(3) by simp
  have gt: "(33 :: real) > 12" by simp
  have dn: "to_num (JNum 33) = Some 33" "to_num (get ?m ''hco3'') = Some 12"
    unfolding g by simp_all
  have s6: "state (run_step6 ?m (run_step5 ?m ?t4)) =
      (state (run_step5 ?m ?t4))\<lparr>deltaRatio := Some ((33 - 12) / (24 - 12)),
         deltaRatioAssessment := Some ''pure HAGMA''\<rparr>"
    unfolding run_step6_elevated(1)[OF c5 gt p5] evaluateDeltaRatio_num[OF dn albumin_usable_undefined]
    by simp
  have t6: "step6 (results (run_step6 ?m (run_step5 ?m ?t4))) =
      msg_delta_ratio ((33 - 12) / (24 - 12)) 12 @ msg_ratio_pure"
    unfolding run_step6_elevated(2)[OF c5 gt p5] g
    by (simp add: evaluateDeltaRatio_def albumin_usable_undefined Let_def)
  have a: "primaryDisorder (state (analyze fresh ?m)) = Some ''metabolic acidosis''"
    unfolding analyze_state(2)[OF g v] by (rule p3)
  have b: "correctedAnionGap (state (analyze fresh ?m)) = Some 33"
    unfolding analyze_valid[OF g v] state_run_final s6 using c5 by simp
  have c: "deltaRatio (state (analyze fresh ?m)) = Some ((33 - 12) / (24 - 12)) \<and>
      deltaRatioAssessment (state (analyze fresh ?m)) = Some ''pure HAGMA''"
    unfolding analyze_valid[OF g v] state_run_final s6 by simp
  have d: "step6 (results (analyze fresh ?m)) = msg_delta_ratio ((33 - 12) / (24 - 12)) 12 @ msg_ratio_pure"
    unfolding analyze_valid[OF g v] using t6 by (simp add: run_final_def)
  have f: "deltaRatio (snd (evaluateDeltaRatio (JNum 33) (JNum 12) (JNum 2.0) empty_state))
       = Some ((33 - max 3 (12 - 2.5 * (4.0 - 2.0))) / (24 - 12)) \<and>
     deltaRatioAssessment (snd (evaluateDeltaRatio (JNum 33) (JNum 12) (JNum 2.0) empty_state))
       = Some ''concurrent met alk''"
    by (simp add: evaluateDeltaRatio_def albumin_usable_def empty_state_def Let_def)
  from a b c d f show ?thesis by blast
qed

subsection \<open>Determinism\<close>

text \<open>
  C9: \<open>analyze\<close> is a function of the values of the keys it reads. Two calls whose
  MeasurementSets agree on these keys return the same result, whatever the analyzer
  object held before and whatever other keys the sets have or lack; and the only
  error is that of the validation of ph, paco2 and hco3.
\<close>

theorem C9_deterministic:
  assumes "\<forall>key \<in> set read_keys. get values1 key = get values2 key"
  shows "analyze this1 values1 = analyze this2 values2 \<and>
     (error (results (analyze this1 values1)) = None \<longleftrightarrow>
        (\<exists>ph paco2 hco3. get values1 ''ph'' = JNum ph \<and> get values1 ''paco2'' = JNum paco2 \<and>
           get values1 ''hco3'' = JNum hco3 \<and> 6 \<le> ph \<and> ph \<le> 8 \<and> 10 \<le> paco2 \<and> paco2 \<le> 150 \<and>
           2 \<le> hco3 \<and> hco3 \<le> 60))"
proof -
  have eq: "get values1 ''ph'' = get values2 ''ph''" "get values1 ''paco2'' = get values2 ''paco2''"
    "get values1 ''hco3'' = get values2 ''hco3''" "get values1 ''na'' = get values2 ''na''"
    "get values1 ''cl'' = get values2 ''cl''" "get values1 ''albumin'' = get values2 ''albumin''"
    using assms by (simp_all add: read_keys_def)
  have v: "validateInputs values1 r = validateInputs values2 r" for r
    unfolding validateInputs_def required_def first_invalid.simps eq ..
  have s5: "run_step5 values1 t = run_step5 values2 t" for t
    unfolding run_step5_def eq ..
  have s6: "run_step6 values1 t = run_step6 values2 t" for t
    unfolding run_step6_def eq ..
  have same: "analyze this1 values1 = analyze this2 values2"
    unfolding analyze_def resetStateAndResults_def v s5 s6 eq ..
  have err: "error (results (analyze this1 values1)) = None \<longleftrightarrow> fst (validateInputs values1 empty_results)"
    using analyze_accepted(1)[of values1 empty_results this1] analyze_rejected(2)[of values1 this1]
    by blast
  show ?thesis
    using same err unfolding validateInputs_accepts by blast
qed

theorem C9_witness:
  "list_all (\<lambda>key.
      get [''ph'' \<mapsto> JNum 7.25, ''paco2'' \<mapsto> JNum 30, ''hco3'' \<mapsto> JNum 13] key =
      get [''ph'' \<mapsto> JNum 7.25, ''paco2'' \<mapsto> JNum 30, ''hco3'' \<mapsto> JNum 13, ''k'' \<mapsto> JNum 4,
           ''patient'' \<mapsto> JNum 17] key) read_keys \<and>
   analyze fresh [''ph'' \<mapsto> JNum 7.25, ''paco2'' \<mapsto> JNum 30, ''hco3'' \<mapsto> JNum 13] =
   analyze (analyze fresh [''ph'' \<mapsto> JNum 5]) [''ph'' \<mapsto> JNum 7.25, ''paco2'' \<mapsto> JNum 30, ''hco3'' \<mapsto> JNum 13,
      ''k'' \<mapsto> JNum 4, ''patient'' \<mapsto> JNum 17] \<and>
   error (results (analyze fresh [''ph'' \<mapsto> JNum 7.25, ''paco2'' \<mapsto> JNum 30, ''hco3'' \<mapsto> JNum 13])) = None"
proof -
  let ?a = "[''ph'' \<mapsto> JNum 7.25, ''paco2'' \<mapsto> JNum 30, ''hco3'' \<mapsto> JNum 13]"
  let ?b = "[''ph'' \<mapsto> JNum 7.25, ''paco2'' \<mapsto> JNum 30, ''hco3'' \<mapsto> JNum 13, ''k'' \<mapsto> JNum 4,
           ''patient'' \<mapsto> JNum 17]"
  have h: "\<forall>key \<in> set read_keys. get ?a key = get ?b key"
    by (simp add: read_keys_def get_def)
  have g: "get ?a ''ph'' = JNum 7.25" "get ?a ''paco2'' = JNum 30" "get ?a ''hco3'' = JNum 13"
    by (simp_all add: get_def)
  have r: "\<exists>ph paco2 hco3. get ?a ''ph'' = JNum ph \<and> get ?a ''paco2'' = JNum paco2 \<and>
           get ?a ''hco3'' = JNum hco3 \<and> 6 \<le> ph \<and> ph \<le> 8 \<and> 10 \<le> paco2 \<and> paco2 \<le> 150 \<and>
           2 \<le> hco3 \<and> hco3 \<le> 60"
    by (rule exI[of _ "7.25"], rule exI[of _ 30], rule exI[of _ 13]) (simp add: get_def)
  have l: "list_all (\<lambda>key. get ?a key = get ?b key) read_keys"
    using h by (simp add: list_all_iff)
  show ?thesis
    using l r C9_deterministic[OF h, of fresh "analyze fresh [''ph'' \<mapsto> JNum 5]"] by blast
qed

subsection \<open>additionalDisorders\<close>

lemma evaluateCompensation_appends:
  "\<exists>zs. additionalDisorders (snd (evaluateCompensation paco2 hco3 s)) = additionalDisorders s @ zs \<and>
        length zs \<le> 1"
proof -
  have a: "\<exists>zs. additionalDisorders (assess m e r lo hi t) = additionalDisorders s @ zs \<and> length zs \<le> 1"
    if "additionalDisorders t = additionalDisorders s" for m e r lo hi t
    using that by (simp add: assess_additional)
  consider (ma) "primaryDisorder s = Some ''metabolic acidosis''"
    | (malk) "primaryDisorder s = Some ''metabolic alkalosis''"
    | (ra) "primaryDisorder s = Some ''respiratory acidosis''"
    | (ralk) "primaryDisorder s = Some ''respiratory alkalosis''"
    | (other) "primaryDisorder s \<noteq> Some ''metabolic acidosis''" "primaryDisorder s \<noteq> Some ''metabolic alkalosis''"
       "primaryDisorder s \<noteq> Some ''respiratory acidosis''" "primaryDisorder s \<noteq> Some ''respiratory alkalosis''"
    by blast
  then show ?thesis
  proof cases
    case ma show ?thesis unfolding evaluateCompensation_met_acidosis[OF ma] by (rule a) simp
  next
    case malk show ?thesis unfolding evaluateCompensation_met_alkalosis[OF malk] by (rule a) simp
  next
    case ra show ?thesis unfolding evaluateCompensation_resp_acidosis[OF ra]
      by (cases "\<bar>hco3 - (24 + (paco2 - 40) * 0.1)\<bar> < \<bar>hco3 - (24 + (paco2 - 40) * 0.35)\<bar>")
         (simp_all only: if_True if_False, (rule a, simp)+)
  next
    case ralk show ?thesis unfolding evaluateCompensation_resp_alkalosis[OF ralk]
      by (cases "\<bar>hco3 - (24 + (paco2 - 40) * 0.2)\<bar> < \<bar>hco3 - (24 + (paco2 - 40) * 0.5)\<bar>")
         (simp_all only: if_True if_False, (rule a, simp)+)
  next
    case other show ?thesis unfolding evaluateCompensation_other[OF other] by simp
  qed
qed

lemma run_step4_appends:
  "\<exists>zs. additionalDisorders (state (run_step4 paco2 hco3 this)) = additionalDisorders (state this) @ zs \<and>
        length zs \<le> 1"
  unfolding state_run_step4 by (rule evaluateCompensation_appends)

lemma calculateAnionGap_appends:
  "\<exists>zs. additionalDisorders (snd (calculateAnionGap na cl hco3 albumin s)) = additionalDisorders s @ zs \<and>
        (distinct (additionalDisorders s) \<longrightarrow>
           distinct (additionalDisorders (snd (calculateAnionGap na cl hco3 albumin s))))"
proof -
  consider (nan) "to_num na = None \<or> to_num cl = None \<or> to_num hco3 = None"
    | (num) n c h where "to_num na = Some n" "to_num cl = Some c" "to_num hco3 = Some h"
    using to_num_cases by blast
  then show ?thesis
  proof cases
    case nan then show ?thesis by (simp add: calculateAnionGap_nan)
  next
    case num show ?thesis unfolding calculateAnionGap_num[OF num] by simp
  qed
qed

lemma run_step5_appends:
  "\<exists>zs. additionalDisorders (state (run_step5 values this)) = additionalDisorders (state this) @ zs \<and>
        (distinct (additionalDisorders (state this)) \<longrightarrow>
           distinct (additionalDisorders (state (run_step5 values this))))"
proof (cases "get values ''na'' \<noteq> JUndefined \<and> get values ''cl'' \<noteq> JUndefined \<and> get values ''hco3'' \<noteq> JUndefined")
  case True
  then show ?thesis
    using calculateAnionGap_appends[of "get values ''na''" "get values ''cl''" "get values ''hco3''"
        "get values ''albumin''" "state this"]
    by (simp add: state_run_step5_provided(1))
next
  case False
  then show ?thesis by (auto simp add: run_step5_def)
qed

lemma evaluateDeltaRatio_appends:
  assumes "\<not> albumin_usable albumin"
  shows "\<exists>zs. additionalDisorders (snd (evaluateDeltaRatio ag hco3 albumin s)) = additionalDisorders s @ zs \<and>
        (distinct (additionalDisorders s) \<longrightarrow>
           distinct (additionalDisorders (snd (evaluateDeltaRatio ag hco3 albumin s))))"
proof -
  consider (nan) "to_num ag = None \<or> to_num hco3 = None"
    | (num) a h where "to_num ag = Some a" "to_num hco3 = Some h"
    using to_num_cases by blast
  then show ?thesis
  proof cases
    case nan then show ?thesis by (simp add: evaluateDeltaRatio_nan)
  next
    case num show ?thesis unfolding evaluateDeltaRatio_num[OF num assms] by simp
  qed
qed

lemma run_step6_appends:
  "\<exists>zs. additionalDisorders (state (run_step6 values this)) = additionalDisorders (state this) @ zs \<and>
        (distinct (additionalDisorders (state this)) \<longrightarrow>
           distinct (additionalDisorders (state (run_step6 values this))))"
proof -
  let ?ag = "case correctedAnionGap (state this) of Some g \<Rightarrow> Some g | None \<Rightarrow> anionGap (state this)"
  show ?thesis
  proof (cases "?ag \<noteq> None \<and> the ?ag > 12 \<and> primaryDisorder (state this) = Some ''metabolic acidosis''")
    case True
    then have "state (run_step6 values this) =
        snd (evaluateDeltaRatio (JNum (the ?ag)) (get values ''hco3'') JUndefined (state this))"
      by (simp add: run_step6_def case_prod_beta Let_def)
    then show ?thesis
      using evaluateDeltaRatio_appends[OF albumin_usable_undefined, of "JNum (the ?ag)" "get values ''hco3''" "state this"]
      by simp
  next
    case False
    then have "state (run_step6 values this) = state this"
      by (auto simp add: run_step6_def Let_def)
    then show ?thesis by simp
  qed
qed

text \<open>
  C10: in every state returned by \<open>analyze\<close> additionalDisorders has no duplicate
  label. On valid input the list is empty when step 4 starts, and each of the
  compensation, anion-gap and delta-ratio stages leaves a list without duplicates that
  extends the list it received at its end, so that the labels stay in the order of
  their first insertion.
\<close>

theorem C10_additional_disorders:
  "distinct (additionalDisorders (state (analyze this values))) \<and>
   (fst (validateInputs values empty_results) \<and> get values ''ph'' = JNum ph \<and>
    get values ''paco2'' = JNum paco2 \<and> get values ''hco3'' = JNum hco3 \<longrightarrow>
      (let t3 = run_step3 ph paco2 hco3 (run_step2 ph (run_step1 ph paco2 hco3 fresh));
           t4 = run_step4 paco2 hco3 t3;
           t5 = run_step5 values t4;
           t6 = run_step6 values t5
       in analyze this values = run_final t6 \<and>
          additionalDisorders (state (analyze this values)) = additionalDisorders (state t6) \<and>
          additionalDisorders (state t3) = [] \<and>
          distinct (additionalDisorders (state t4)) \<and>
          (\<exists>zs. additionalDisorders (state t4) = additionalDisorders (state t3) @ zs) \<and>
          distinct (additionalDisorders (state t5)) \<and>
          (\<exists>zs. additionalDisorders (state t5) = additionalDisorders (state t4) @ zs) \<and>
          distinct (additionalDisorders (state t6)) \<and>
          (\<exists>zs. additionalDisorders (state t6) = additionalDisorders (state t5) @ zs)))"
proof -
  have valid: "(let t3 = run_step3 ph paco2 hco3 (run_step2 ph (run_step1 ph paco2 hco3 fresh));
           t4 = run_step4 paco2 hco3 t3;
           t5 = run_step5 values t4;
           t6 = run_step6 values t5
       in analyze this values = run_final t6 \<and>
          additionalDisorders (state (analyze this values)) = additionalDisorders (state t6) \<and>
          additionalDisorders (state t3) = [] \<and>
          distinct (additionalDisorders (state t4)) \<and>
          (\<exists>zs. additionalDisorders (state t4) = additionalDisorders (state t3) @ zs) \<and>
          distinct (additionalDisorders (state t5)) \<and>
          (\<exists>zs. additionalDisorders (state t5) = additionalDisorders (state t4) @ zs) \<and>
          distinct (additionalDisorders (state t6)) \<and>
          (\<exists>zs. additionalDisorders (state t6) = additionalDisorders (state t5) @ zs))"
    if v: "fst (validateInputs values empty_results)" and g: "get values ''ph'' = JNum ph"
      "get values ''paco2'' = JNum paco2" "get values ''hco3'' = JNum hco3" for ph paco2 hco3
  proof -
    let ?t3 = "run_step3 ph paco2 hco3 (run_step2 ph (run_step1 ph paco2 hco3 fresh))"
    let ?t4 = "run_step4 paco2 hco3 ?t3"
    let ?t5 = "run_step5 values ?t4"
    let ?t6 = "run_step6 values ?t5"
    have a: "analyze this values = run_final ?t6"
      by (rule analyze_valid[OF g v])
    have a3: "additionalDisorders (state ?t3) = []"
      unfolding state_after_step3 by (rule state3_fields)
    from run_step4_appends[of paco2 hco3 ?t3] obtain zs4 where
      z4: "additionalDisorders (state ?t4) = additionalDisorders (state ?t3) @ zs4" "length zs4 \<le> 1"
      by blast
    have d4: "distinct (additionalDisorders (state ?t4))"
      unfolding z4(1) a3 using z4(2) by (cases zs4) simp_all
    from run_step5_appends[of "values" ?t4] d4 obtain zs5 where
      z5: "additionalDisorders (state ?t5) = additionalDisorders (state ?t4) @ zs5"
      and d5: "distinct (additionalDisorders (state ?t5))"
      by blast
    from run_step6_appends[of "values" ?t5] d5 obtain zs6 where
      z6: "additionalDisorders (state ?t6) = additionalDisorders (state ?t5) @ zs6"
      and d6: "distinct (additionalDisorders (state ?t6))"
      by blast
    have f: "additionalDisorders (state (analyze this values)) = additionalDisorders (state ?t6)"
      unfolding a state_run_final ..
    show ?thesis
      unfolding Let_def using a f a3 d4 z4(1) d5 z5 d6 z6 by blast
  qed
  have "distinct (additionalDisorders (state (analyze this values)))"
  proof (cases "fst (validateInputs values empty_results)")
    case True
    then obtain ph paco2 hco3 where g: "get values ''ph'' = JNum ph" "get values ''paco2'' = JNum paco2"
        "get values ''hco3'' = JNum hco3"
      unfolding validateInputs_accepts by blast
    from valid[OF True g] show ?thesis unfolding Let_def by (simp add: state_run_final)
  next
    case False
    show ?thesis unfolding analyze_rejected(1)[OF False] by (simp add: empty_state_def)
  qed
  then show ?thesis using valid by blast
qed

theorem C10_witness:
  "fst (validateInputs [''ph'' \<mapsto> JNum 7.2, ''paco2'' \<mapsto> JNum 40, ''hco3'' \<mapsto> JNum 12,
      ''na'' \<mapsto> JNum 140, ''cl'' \<mapsto> JNum 114] empty_results) \<and>
   get [''ph'' \<mapsto> JNum 7.2, ''paco2'' \<mapsto> JNum 40, ''hco3'' \<mapsto> JNum 12,
      ''na'' \<mapsto> JNum 140, ''cl'' \<mapsto> JNum 114] ''ph'' = JNum 7.2 \<and>
   get [''ph'' \<mapsto> JNum 7.2, ''paco2'' \<mapsto> JNum 40, ''hco3'' \<mapsto> JNum 12,
      ''na'' \<mapsto> JNum 140, ''cl'' \<mapsto> JNum 114] ''paco2'' = JNum 40 \<and>
   get [''ph'' \<mapsto> JNum 7.2, ''paco2'' \<mapsto> JNum 40, ''hco3'' \<mapsto> JNum 12,
      ''na'' \<mapsto> JNum 140, ''cl'' \<mapsto> JNum 114] ''hco3'' = JNum 12 \<and>
   distinct (additionalDisorders (state (analyze fresh [''ph'' \<mapsto> JNum 7.2, ''paco2'' \<mapsto> JNum 40, ''hco3'' \<mapsto> JNum 12,
      ''na'' \<mapsto> JNum 140, ''cl'' \<mapsto> JNum 114]))) \<and>
   additionalDisorders (state (analyze fresh [''ph'' \<mapsto> JNum 7.2, ''paco2'' \<mapsto> JNum 40, ''hco3'' \<mapsto> JNum 12,
      ''na'' \<mapsto> JNum 140, ''cl'' \<mapsto> JNum 114]))
     = [''respiratory acidosis'', ''normal anion gap metabolic acidosis'']"
proof -
  let ?m = "[''ph'' \<mapsto> JNum 7.2, ''paco2'' \<mapsto> JNum 40, ''hco3'' \<mapsto> JNum 12,
      ''na'' \<mapsto> JNum 140, ''cl'' \<mapsto> JNum 114]"
  let ?t4 = "run_step4 40 12 (run_step3 7.2 40 12 (run_step2 7.2 (run_step1 7.2 40 12 fresh)))"
  have g: "get ?m ''ph'' = JNum 7.2" "get ?m ''paco2'' = JNum 40" "get ?m ''hco3'' = JNum 12"
    and e: "get ?m ''na'' = JNum 140" "get ?m ''cl'' = JNum 114" "get ?m ''albumin'' = JUndefined"
    by (simp_all add: get_def)
  have v: "fst (validateInputs ?m empty_results)"
    using validateInputs_num[OF g, of empty_results] by simp
  have p: "get ?m ''na'' \<noteq> JUndefined" "get ?m ''cl'' \<noteq> JUndefined" "get ?m ''hco3'' \<noteq> JUndefined"
    unfolding g e by simp_all
  have n: "to_num (get ?m ''na'') = Some 140" "to_num (get ?m ''cl'') = Some 114" "to_num (get ?m ''hco3'') = Some 12"
    unfolding g e by simp_all
  have p3: "primaryDisorder (state3 7.2 40 12) = Some ''metabolic acidosis''"
    by (simp add: state3_def snd_determineAcidemiaAlkalemia identifyPrimaryDisorder_def Let_def)
  have p4: "primaryDisorder (state ?t4) = Some ''metabolic acidosis''"
    unfolding state_after_step4 state4_def evaluateCompensation_fields by (rule p3)
  have a4: "additionalDisorders (state ?t4) = [''respiratory acidosis'']"
    unfolding state_after_step4 state4_def evaluateCompensation_met_acidosis[OF p3]
    by (simp add: assess_additional state3_fields)
  have p5: "primaryDisorder (state (run_step5 ?m ?t4)) = Some ''metabolic acidosis''"
    unfolding run_step5_fields by (rule p4)
  have unusable: "\<not> albumin_usable (get ?m ''albumin'')"
    unfolding e by (rule albumin_usable_undefined)
  note s5 = state_run_step5_provided(1)[OF p, of ?t4, unfolded calculateAnionGap_num[OF n]]
  have c5: "correctedAnionGap (state (run_step5 ?m ?t4)) = Some 14"
    unfolding s5 using unusable by simp
  have a5: "additionalDisorders (state (run_step5 ?m ?t4)) = [''respiratory acidosis'']"
    unfolding s5 using unusable p4 a4 by simp
  have gt: "(14 :: real) > 12" by simp
  have dn: "to_num (JNum 14) = Some 14" "to_num (get ?m ''hco3'') = Some 12"
    unfolding g by simp_all
  have a6: "additionalDisorders (state (run_step6 ?m (run_step5 ?m ?t4)))
      = [''respiratory acidosis'', ''normal anion gap metabolic acidosis'']"
    unfolding run_step6_elevated(1)[OF c5 gt p5] evaluateDeltaRatio_num[OF dn albumin_usable_undefined]
    using a5 by simp
  have "additionalDisorders (state (analyze fresh ?m))
      = [''respiratory acidosis'', ''normal anion gap metabolic acidosis'']"
    unfolding analyze_valid[OF g v] state_run_final by (rule a6)
  then show ?thesis
    using v g C10_additional_disorders[of fresh ?m "7.2" 40 12] by blast
qed

end
